theory Spec2Isabelle
  imports Main
begin

section \<open>The RStudio bridge: request validation, code synthesis, dispatch\<close>

text \<open>
  A shallow embedding of \<^verbatim>\<open>scripts/interact_with_rstudio.py\<close>.
  Python strings are modelled as \<^typ>\<open>string\<close>, one \<^typ>\<open>char\<close> per code point, so the
  model covers the strings whose code points are below 256. Exceptions are values of the
  type \<open>exn\<close>; a function that may raise returns \<open>exn + 'a\<close>. What the program reads from
  the file system, the process table, the clock and its subprocesses is an explicit
  argument of the function that reads it.
\<close>

subsection \<open>Characters and strings\<close>

definition NL :: char where
  "NL = CHR 0x0A"

definition SQ :: char where
  \<comment> \<open>the single quote\<close>
  "SQ = CHR 0x27"

definition DQ :: char where
  \<comment> \<open>the double quote\<close>
  "DQ = CHR 0x22"

definition BSL :: char where
  \<comment> \<open>the backslash\<close>
  "BSL = CHR 0x5C"

definition is_space :: "char \<Rightarrow> bool" where
  \<comment> \<open>what \<^verbatim>\<open>str.isspace\<close> and the pattern \<^verbatim>\<open>\s\<close> accept below code point 256\<close>
  "is_space c = (of_char c \<in> {9, 10, 11, 12, 13, 28, 29, 30, 31, 32, 133, 160 :: nat})"

definition is_digit :: "char \<Rightarrow> bool" where
  "is_digit c = (48 \<le> (of_char c :: nat) \<and> (of_char c :: nat) \<le> 57)"

definition is_upper :: "char \<Rightarrow> bool" where
  "is_upper c = (65 \<le> (of_char c :: nat) \<and> (of_char c :: nat) \<le> 90)"

definition is_lower :: "char \<Rightarrow> bool" where
  "is_lower c = (97 \<le> (of_char c :: nat) \<and> (of_char c :: nat) \<le> 122)"

definition lower_char :: "char \<Rightarrow> char" where
  \<comment> \<open>\<^verbatim>\<open>str.lower\<close> on one code point below 256: A-Z, and the Latin-1 capitals
     0xC0-0xDE without the multiplication sign 0xD7\<close>
  "lower_char c =
     (let n = (of_char c :: nat)
      in if (65 \<le> n \<and> n \<le> 90) \<or> (192 \<le> n \<and> n \<le> 222 \<and> n \<noteq> 215)
         then char_of (n + 32) else c)"

definition lower :: "string \<Rightarrow> string" where
  "lower s = map lower_char s"

definition trim :: "string \<Rightarrow> string" where
  \<comment> \<open>\<^verbatim>\<open>value.strip()\<close>\<close>
  "trim s = rev (dropWhile is_space (rev (dropWhile is_space s)))"

fun starts_with :: "string \<Rightarrow> string \<Rightarrow> bool" where
  "starts_with [] s = True"
| "starts_with (p # ps) [] = False"
| "starts_with (p # ps) (c # cs) = (p = c \<and> starts_with ps cs)"

fun contains_str :: "string \<Rightarrow> string \<Rightarrow> bool" where
  \<comment> \<open>Python's \<^verbatim>\<open>sub in s\<close>\<close>
  "contains_str sub [] = starts_with sub []"
| "contains_str sub (c # cs) = (starts_with sub (c # cs) \<or> contains_str sub cs)"

fun split_once :: "string \<Rightarrow> string \<Rightarrow> (string \<times> string) option" where
  \<comment> \<open>\<^verbatim>\<open>s.split(sep, 1)\<close> for a separator that occurs in \<open>s\<close>: the text before and
     after its first occurrence; \<open>None\<close> when it does not occur\<close>
  "split_once sep [] = (if sep = [] then Some ([], []) else None)"
| "split_once sep (c # cs) =
     (if starts_with sep (c # cs) then Some ([], drop (length sep) (c # cs))
      else (case split_once sep cs of
              None \<Rightarrow> None
            | Some (a, b) \<Rightarrow> Some (c # a, b)))"

fun split_on :: "char \<Rightarrow> string \<Rightarrow> string list" where
  \<comment> \<open>\<^verbatim>\<open>s.split(c)\<close> for a one-character separator\<close>
  "split_on sep [] = [[]]"
| "split_on sep (c # cs) =
     (if c = sep then [] # split_on sep cs
      else (case split_on sep cs of
              [] \<Rightarrow> [[c]]
            | l # ls \<Rightarrow> (c # l) # ls))"

fun join :: "string \<Rightarrow> string list \<Rightarrow> string" where
  \<comment> \<open>\<^verbatim>\<open>sep.join(parts)\<close>\<close>
  "join sep [] = []"
| "join sep [x] = x"
| "join sep (x # y # ys) = x @ sep @ join sep (y # ys)"

definition replace_char :: "char \<Rightarrow> string \<Rightarrow> string \<Rightarrow> string" where
  \<comment> \<open>\<^verbatim>\<open>value.replace(old, new)\<close> for a one-character \<open>old\<close>\<close>
  "replace_char old new s = concat (map (\<lambda>c. if c = old then new else [c]) s)"

definition rstrip_nl :: "string \<Rightarrow> string" where
  \<comment> \<open>\<^verbatim>\<open>text.rstrip("\n")\<close>\<close>
  "rstrip_nl s = rev (dropWhile (\<lambda>c. c = NL) (rev s))"

subsection \<open>Regular expressions\<close>

text \<open>
  The patterns of the program use literals, character sets, \<^verbatim>\<open>\s\<close>, \<^verbatim>\<open>\d\<close>, alternation,
  the anchors \<^verbatim>\<open>^\<close> and \<^verbatim>\<open>$\<close>, and \<^verbatim>\<open>*\<close> on a single character set. \<open>rx_ends\<close> lists
  every way a pattern can match at a position: the position is the character before it
  (\<open>None\<close> at the start of the text) and the text that remains. Whether a match exists
  does not depend on the order in which a backtracking matcher tries them.
\<close>

datatype cset =
    Range char char
  | One char
  | Space
  | Digit

datatype rx =
    Lit char                \<comment> \<open>a literal character\<close>
  | In_set "cset list"      \<comment> \<open>\<^verbatim>\<open>[...]\<close>\<close>
  | Not_in "cset list"      \<comment> \<open>\<^verbatim>\<open>[^...]\<close>\<close>
  | Star_in "cset list"     \<comment> \<open>\<^verbatim>\<open>[...]*\<close>\<close>
  | Star_not_in "cset list" \<comment> \<open>\<^verbatim>\<open>[^...]*\<close>\<close>
  | Bol                     \<comment> \<open>\<^verbatim>\<open>^\<close> under MULTILINE\<close>
  | Eol                     \<comment> \<open>\<^verbatim>\<open>$\<close> under MULTILINE\<close>
  | Eps
  | Seq rx rx
  | Alt rx rx

fun in_cset :: "char \<Rightarrow> cset \<Rightarrow> bool" where
  "in_cset c (Range a b) = ((of_char a :: nat) \<le> of_char c \<and> (of_char c :: nat) \<le> of_char b)"
| "in_cset c (One a) = (c = a)"
| "in_cset c Space = is_space c"
| "in_cset c Digit = is_digit c"

definition ascii_lower :: "char \<Rightarrow> char" where
  "ascii_lower c = (if is_upper c then char_of ((of_char c :: nat) + 32) else c)"

definition ascii_upper :: "char \<Rightarrow> char" where
  "ascii_upper c = (if is_lower c then char_of ((of_char c :: nat) - 32) else c)"

definition in_csets :: "bool \<Rightarrow> char \<Rightarrow> cset list \<Rightarrow> bool" where
  \<comment> \<open>membership in a character set; under IGNORECASE (first argument) a character
     is in the set when one of its case variants is\<close>
  "in_csets ic c cs =
     (if ic then (\<exists>k \<in> set cs. in_cset c k \<or> in_cset (ascii_lower c) k \<or> in_cset (ascii_upper c) k)
      else (\<exists>k \<in> set cs. in_cset c k))"

definition lit_eq :: "bool \<Rightarrow> char \<Rightarrow> char \<Rightarrow> bool" where
  "lit_eq ic a c = (if ic then ascii_lower a = ascii_lower c else a = c)"

fun star_ends :: "(char \<Rightarrow> bool) \<Rightarrow> char option \<Rightarrow> string \<Rightarrow> (char option \<times> string) list" where
  "star_ends P p [] = [(p, [])]"
| "star_ends P p (c # cs) = (p, c # cs) # (if P c then star_ends P (Some c) cs else [])"

definition one_end :: "(char \<Rightarrow> bool) \<Rightarrow> string \<Rightarrow> (char option \<times> string) list" where
  "one_end P s = (case s of [] \<Rightarrow> [] | c # cs \<Rightarrow> if P c then [(Some c, cs)] else [])"

primrec rx_ends :: "bool \<Rightarrow> rx \<Rightarrow> char option \<Rightarrow> string \<Rightarrow> (char option \<times> string) list" where
  "rx_ends ic (Lit a) p s = one_end (lit_eq ic a) s"
| "rx_ends ic (In_set cs) p s = one_end (\<lambda>c. in_csets ic c cs) s"
| "rx_ends ic (Not_in cs) p s = one_end (\<lambda>c. \<not> in_csets ic c cs) s"
| "rx_ends ic (Star_in cs) p s = star_ends (\<lambda>c. in_csets ic c cs) p s"
| "rx_ends ic (Star_not_in cs) p s = star_ends (\<lambda>c. \<not> in_csets ic c cs) p s"
| "rx_ends ic Bol p s = (if p = None \<or> p = Some NL then [(p, s)] else [])"
| "rx_ends ic Eol p s = (if s = [] \<or> hd s = NL then [(p, s)] else [])"
| "rx_ends ic Eps p s = [(p, s)]"
| "rx_ends ic (Seq a b) p s = concat (map (\<lambda>(q, t). rx_ends ic b q t) (rx_ends ic a p s))"
| "rx_ends ic (Alt a b) p s = rx_ends ic a p s @ rx_ends ic b p s"

fun search_from :: "bool \<Rightarrow> rx \<Rightarrow> char option \<Rightarrow> string \<Rightarrow> bool" where
  "search_from ic r p [] = (rx_ends ic r p [] \<noteq> [])"
| "search_from ic r p (c # cs) = (rx_ends ic r p (c # cs) \<noteq> [] \<or> search_from ic r (Some c) cs)"

definition contains_regex :: "string \<Rightarrow> rx \<Rightarrow> bool" where
  \<comment> \<open>\<^verbatim>\<open>re.search(regex, value, re.IGNORECASE | re.MULTILINE) is not None\<close>\<close>
  "contains_regex v regex = search_from True regex None v"

definition fullmatch :: "rx \<Rightarrow> string \<Rightarrow> bool" where
  \<comment> \<open>\<^verbatim>\<open>re.fullmatch(regex, value) is not None\<close>, no flags\<close>
  "fullmatch regex v = (\<exists>(q, t) \<in> set (rx_ends False regex None v). t = [])"

definition word :: "string \<Rightarrow> rx" where
  \<comment> \<open>a run of literal characters\<close>
  "word s = foldr (\<lambda>c r. Seq (Lit c) r) s Eps"

fun alts :: "rx list \<Rightarrow> rx" where
  \<comment> \<open>\<^verbatim>\<open>(a|b|...)\<close>; the empty alternation matches nothing\<close>
  "alts [] = In_set []"
| "alts [r] = r"
| "alts (r # r' # rs) = Alt r (alts (r' # rs))"

definition seqs :: "rx list \<Rightarrow> rx" where
  \<comment> \<open>concatenation\<close>
  "seqs rs = foldr Seq rs Eps"

subsection \<open>The patterns of the validator\<close>

definition ident_chars :: "cset list" where
  \<comment> \<open>\<^verbatim>\<open>A-Za-z0-9_.\<close>\<close>
  "ident_chars = [Range CHR ''A'' CHR ''Z'', Range CHR ''a'' CHR ''z'', Range CHR ''0'' CHR ''9'',
                  One CHR ''_'', One CHR ''.'']"

definition boundary :: rx where
  \<comment> \<open>\<^verbatim>\<open>(^|[^A-Za-z0-9_.])\<close>\<close>
  "boundary = Alt Bol (Not_in ident_chars)"

definition spaces :: rx where
  \<comment> \<open>\<^verbatim>\<open>\s*\<close>\<close>
  "spaces = Star_in [Space]"

definition call_of :: "string list \<Rightarrow> rx" where
  \<comment> \<open>\<^verbatim>\<open>(^|[^A-Za-z0-9_.])(name1|name2|...)\s*\(\<close>\<close>
  "call_of names = seqs [boundary, alts (map word names), spaces, Lit CHR ''('']"

definition COMMON_BLOCKED_PATTERNS :: "rx list" where
  "COMMON_BLOCKED_PATTERNS =
     [word ''<<-'',
      word ''->>'',
      call_of [''save'', ''saveRDS'', ''load'', ''setwd'', ''options'', ''Sys.setenv'', ''library'',
               ''require'', ''attach'', ''detach'', ''sink'', ''system'', ''system2''],
      call_of [''q'', ''quit'']]"

definition APPEND_FILE_BLOCKED_PATTERNS :: "rx list" where
  "APPEND_FILE_BLOCKED_PATTERNS =
     [call_of [''write'', ''writeLines'', ''write.csv'', ''write.csv2'', ''write.delim'',
               ''write.delim2'', ''write.table'', ''fwrite'', ''cat'', ''saveRDS'', ''save'', ''load'',
               ''file.create'', ''dir.create'', ''unlink'', ''file.remove'', ''file.rename'',
               ''file.copy'', ''file.append'', ''download.file'', ''png'', ''jpeg'', ''svg'', ''bmp'',
               ''tiff'', ''pdf'', ''postscript'', ''quartz'', ''x11'']]"

definition rx_source_call :: rx where
  \<comment> \<open>\<^verbatim>\<open>(^|[^A-Za-z0-9_.])source\s*\(\<close>\<close>
  "rx_source_call = seqs [boundary, word ''source'', spaces, Lit CHR ''('']"

definition rx_source_local :: rx where
  \<comment> \<open>\<^verbatim>\<open>source\s*\([^)]*local\s*=\<close>\<close>
  "rx_source_local =
     seqs [word ''source'', spaces, Lit CHR ''('', Star_not_in [One CHR '')''], word ''local'', spaces,
           Lit CHR ''='']"

definition rx_source_local_false :: rx where
  \<comment> \<open>\<^verbatim>\<open>source\s*\([^)]*local\s*=\s*FALSE\<close>\<close>
  "rx_source_local_false =
     seqs [word ''source'', spaces, Lit CHR ''('', Star_not_in [One CHR '')''], word ''local'', spaces,
           Lit CHR ''='', spaces, word ''FALSE'']"

definition rx_left_arrow :: rx where
  \<comment> \<open>\<^verbatim>\<open><-\<close>\<close>
  "rx_left_arrow = word ''<-''"

definition rx_right_arrow :: rx where
  \<comment> \<open>\<^verbatim>\<open>->\<close>\<close>
  "rx_right_arrow = word ''->''"

definition rx_identifier :: rx where
  \<comment> \<open>\<^verbatim>\<open>[A-Za-z.][A-Za-z0-9._]*\<close>\<close>
  "rx_identifier =
     seqs [In_set [Range CHR ''A'' CHR ''Z'', Range CHR ''a'' CHR ''z'', One CHR ''.''],
           Star_in [Range CHR ''A'' CHR ''Z'', Range CHR ''a'' CHR ''z'', Range CHR ''0'' CHR ''9'',
                    One CHR ''.'', One CHR ''_'']]"

definition rx_incomplete :: rx where
  \<comment> \<open>\<^verbatim>\<open>(<-|->|=)\s*$\<close>\<close>
  "rx_incomplete = seqs [alts [word ''<-'', word ''->'', word ''=''], spaces, Eol]"

definition rx_globalenv :: rx where
  \<comment> \<open>\<^verbatim>\<open>(^|[^A-Za-z0-9_.])(\.GlobalEnv|globalenv\s*\()\<close>\<close>
  "rx_globalenv =
     seqs [boundary, Alt (word ''.GlobalEnv'') (seqs [word ''globalenv'', spaces, Lit CHR ''(''])]"

definition rx_digits :: rx where
  \<comment> \<open>\<^verbatim>\<open>\d+\<close>\<close>
  "rx_digits = seqs [In_set [Digit], Star_in [Digit]]"

subsection \<open>Exceptions\<close>

datatype verr =
    Blocked_pattern string rx           \<comment> \<open>label, pattern: "... contains blocked pattern (...)."\<close>
  | Source_without_local string         \<comment> \<open>"... uses source(...) without local= explicitly set."\<close>
  | Source_local_false string           \<comment> \<open>"... uses source(..., local = FALSE), which is not allowed."\<close>
  | Append_writes_files                 \<comment> \<open>"APPEND_CODE may not write files."\<close>
  | Left_arrow string                   \<comment> \<open>"... cannot contain '<-' assignment."\<close>
  | Right_arrow string                  \<comment> \<open>"... cannot contain right-arrow assignment."\<close>
  | Invalid_identifier string string    \<comment> \<open>"... '...' is not a valid identifier."\<close>
  | Requires_name_expr string           \<comment> \<open>"... requires '<name>:=<expr>'."\<close>
  | Requires_non_empty string           \<comment> \<open>"... requires non-empty name and expression."\<close>
  | Looks_incomplete string string      \<comment> \<open>"... expression for '...' looks incomplete."\<close>
  | Append_empty                        \<comment> \<open>"append cannot be empty."\<close>
  | Append_targets_globalenv            \<comment> \<open>"Appended code cannot directly target .GlobalEnv."\<close>
  | Result_empty                        \<comment> \<open>"result cannot be empty."\<close>
  | Result_not_one_line                 \<comment> \<open>"result must be one line."\<close>
  | Export_empty                        \<comment> \<open>"export cannot be empty."\<close>
  | Export_not_one_line                 \<comment> \<open>"export must be one line."\<close>
  | Modify_empty                        \<comment> \<open>"modify cannot be empty."\<close>
  | No_capability                       \<comment> \<open>"At least one capability is required."\<close>
  | Export_combined                     \<comment> \<open>"export cannot be combined with result, create, or modify."\<close>
  | Bad_benchmark_unit                  \<comment> \<open>"benchmark-unit must be either 'seconds' or 'ms'."\<close>
  | Benchmark_requires_result           \<comment> \<open>"benchmark requires result."\<close>
  | Benchmark_combined                  \<comment> \<open>"benchmark cannot be combined with export, create, or modify."\<close>
  | Not_an_integer string               \<comment> \<open>"... must be an integer."\<close>
  | Capture_output_requires_result      \<comment> \<open>"capture-output requires result or export."\<close>
  | Duplicate_create string             \<comment> \<open>"create duplicates name '...' in one invocation."\<close>
  | Syntax_check_failed                 \<comment> \<open>"R syntax check failed."\<close>
  | Invalid_boolean string              \<comment> \<open>"Invalid boolean value: ..."\<close>
  | Bad_input_form                      \<comment> \<open>"Input must be '<prefix>:<payload>' or a control command."\<close>
  | Unknown_prefix string               \<comment> \<open>"Unknown input prefix: ..."\<close>

datatype serr =
    Session_dir_without_state string    \<comment> \<open>"Specified session-dir is missing session-persistent-state: ..."\<close>
  | No_active_session                   \<comment> \<open>"Unable to locate an active RStudio session state file."\<close>
  | No_rpc_script                       \<comment> \<open>"Unable to locate communicate_with_rstudio_console_with_rpc_low_level.py"\<close>
  | Busy_precheck_failed                \<comment> \<open>"Failed busy precheck."\<close>
  | Rpc_send_failed                     \<comment> \<open>"Failed to send RPC request."\<close>
  | Result_wait_timed_out               \<comment> \<open>"Timed out waiting for result file."\<close>

datatype exn =
    ValidationError verr
  | SendError serr
  | OtherException string               \<comment> \<open>any other exception, by its name\<close>

type_synonym 'a result = "exn + 'a"

fun for_each :: "('a \<Rightarrow> unit result) \<Rightarrow> 'a list \<Rightarrow> unit result" where
  \<comment> \<open>\<^verbatim>\<open>for x in xs: f(x)\<close>, stopping at the first exception\<close>
  "for_each f [] = Inr ()"
| "for_each f (x # xs) = (case f x of Inl e \<Rightarrow> Inl e | Inr _ \<Rightarrow> for_each f xs)"

subsection \<open>The validators\<close>

definition validate_common_blocklist :: "string \<Rightarrow> string \<Rightarrow> unit result" where
  "validate_common_blocklist code label =
     (case find (contains_regex code) COMMON_BLOCKED_PATTERNS of
        Some regex \<Rightarrow> Inl (ValidationError (Blocked_pattern label regex))
      | None \<Rightarrow>
          if contains_regex code rx_source_call then
            (if \<not> contains_regex code rx_source_local
               then Inl (ValidationError (Source_without_local label))
             else if contains_regex code rx_source_local_false
               then Inl (ValidationError (Source_local_false label))
             else Inr ())
          else Inr ())"

definition validate_append_file_restrictions :: "string \<Rightarrow> unit result" where
  "validate_append_file_restrictions code =
     (case find (contains_regex code) APPEND_FILE_BLOCKED_PATTERNS of
        Some regex \<Rightarrow> Inl (ValidationError Append_writes_files)
      | None \<Rightarrow> Inr ())"

definition validate_assignment_free :: "string \<Rightarrow> string \<Rightarrow> unit result" where
  "validate_assignment_free code label =
     (if contains_regex code rx_left_arrow then Inl (ValidationError (Left_arrow label))
      else if contains_regex code rx_right_arrow then Inl (ValidationError (Right_arrow label))
      else Inr ())"

definition validate_identifier :: "string \<Rightarrow> string \<Rightarrow> unit result" where
  "validate_identifier v label =
     (if \<not> fullmatch rx_identifier v then Inl (ValidationError (Invalid_identifier label v))
      else Inr ())"

definition validate_name_expr_spec :: "string \<Rightarrow> string \<Rightarrow> (string \<times> string) result" where
  "validate_name_expr_spec spec capability_label =
     (if \<not> contains_str '':='' spec
        then Inl (ValidationError (Requires_name_expr capability_label))
      else
        (case split_once '':='' spec of
           None \<Rightarrow> Inl (OtherException ''ValueError'')
         | Some (name_part, expr_part) \<Rightarrow>
             (let var_name = trim name_part; var_expr = trim expr_part
              in if var_name = [] \<or> var_expr = []
                   then Inl (ValidationError (Requires_non_empty capability_label))
                 else
                   (case validate_identifier var_name (capability_label @ '' name'') of
                      Inl e \<Rightarrow> Inl e
                    | Inr u \<Rightarrow>
                        if contains_regex var_expr rx_incomplete
                          then Inl (ValidationError (Looks_incomplete capability_label var_name))
                        else
                          (let label = capability_label @ '' expression '' @ [SQ] @ var_name @ [SQ]
                           in (case validate_common_blocklist var_expr label of
                                 Inl e \<Rightarrow> Inl e
                               | Inr u \<Rightarrow>
                                   (case validate_assignment_free var_expr label of
                                      Inl e \<Rightarrow> Inl e
                                    | Inr u \<Rightarrow> Inr (var_name, var_expr))))))))"

definition validate_append_snippet :: "string \<Rightarrow> unit result" where
  "validate_append_snippet snippet =
     (if trim snippet = [] then Inl (ValidationError Append_empty)
      else
        (case validate_common_blocklist snippet ''Appended code'' of
           Inl e \<Rightarrow> Inl e
         | Inr u \<Rightarrow>
             if contains_regex snippet rx_globalenv
               then Inl (ValidationError Append_targets_globalenv)
             else validate_append_file_restrictions snippet))"

definition validate_result_expr :: "string \<Rightarrow> unit result" where
  "validate_result_expr expr =
     (if trim expr = [] then Inl (ValidationError Result_empty)
      else if contains_str [NL] expr then Inl (ValidationError Result_not_one_line)
      else
        (case validate_common_blocklist expr ''Result expression'' of
           Inl e \<Rightarrow> Inl e
         | Inr u \<Rightarrow> validate_assignment_free expr ''Result expression''))"

definition validate_state_export_expr :: "string \<Rightarrow> unit result" where
  "validate_state_export_expr expr =
     (if trim expr = [] then Inl (ValidationError Export_empty)
      else if contains_str [NL] expr then Inl (ValidationError Export_not_one_line)
      else
        (case validate_common_blocklist expr ''R_STATE_EXPORT expression'' of
           Inl e \<Rightarrow> Inl e
         | Inr u \<Rightarrow> validate_assignment_free expr ''R_STATE_EXPORT expression''))"

definition validate_modify_global_snippet :: "string \<Rightarrow> unit result" where
  "validate_modify_global_snippet snippet =
     (if trim snippet = [] then Inl (ValidationError Modify_empty)
      else validate_common_blocklist snippet ''Global-modify code'')"

definition ensure_int_string :: "string \<Rightarrow> string \<Rightarrow> unit result" where
  "ensure_int_string v label =
     (if \<not> fullmatch rx_digits v then Inl (ValidationError (Not_an_integer label)) else Inr ())"

subsection \<open>The request state\<close>

record State =
  append_code_snippets :: "string list"
  result_expr :: string
  state_export_expr :: string
  create_global_specs :: "string list"
  modify_global_snippets :: "string list"
  session_dir :: string
  request_id :: string
  rpostback_bin :: string
  out_path :: string
  timeout_seconds :: string
  rpc_timeout_seconds :: string
  benchmark_mode :: bool
  benchmark_unit :: string
  print_code :: bool
  capture_output :: bool

definition initial_State :: State where
  \<comment> \<open>\<^verbatim>\<open>State()\<close>: the defaults of the dataclass\<close>
  "initial_State =
     \<lparr>append_code_snippets = [], result_expr = [], state_export_expr = [],
      create_global_specs = [], modify_global_snippets = [], session_dir = [],
      request_id = ''1'', rpostback_bin = [], out_path = [], timeout_seconds = ''8'',
      rpc_timeout_seconds = ''12'', benchmark_mode = False, benchmark_unit = ''seconds'',
      print_code = False, capture_output = False\<rparr>"

definition clear_capabilities :: "State \<Rightarrow> State" where
  "clear_capabilities state =
     state\<lparr>append_code_snippets := [], result_expr := [], state_export_expr := [],
           create_global_specs := [], modify_global_snippets := [], benchmark_mode := False\<rparr>"

text \<open>The field \<^verbatim>\<open>out_path\<close> of \<^verbatim>\<open>SendContext\<close> is \<open>ctx_out_path\<close> here, since \<^verbatim>\<open>State\<close>
  has a field of that name too.\<close>

record SendContext =
  expect_result :: bool
  ctx_out_path :: string
  is_temp_out_path :: bool
  state_export_path :: string
  append_only :: bool

definition seq_r :: "unit result \<Rightarrow> 'a result \<Rightarrow> 'a result" where
  \<comment> \<open>one statement after another: the second runs when the first did not raise\<close>
  "seq_r m k = (case m of Inl e \<Rightarrow> Inl e | Inr _ \<Rightarrow> k)"

definition validate_state_for_send :: "string \<Rightarrow> string \<Rightarrow> State \<Rightarrow> SendContext result" where
  \<comment> \<open>the first two arguments are the paths that the two calls of \<^verbatim>\<open>tempfile.mkstemp\<close>
     return (the result file and the export file)\<close>
  "validate_state_for_send tmp_result tmp_state state =
     (let has_append = (append_code_snippets state \<noteq> []);
          has_result = (result_expr state \<noteq> []);
          has_export = (state_export_expr state \<noteq> []);
          has_create = (create_global_specs state \<noteq> []);
          has_modify = (modify_global_snippets state \<noteq> []);
          has_any = (has_append \<or> has_result \<or> has_export \<or> has_create \<or> has_modify);
          has_terminal = (has_result \<or> has_export \<or> has_create \<or> has_modify)
      in if \<not> has_any then Inl (ValidationError No_capability)
         else if state_export_expr state \<noteq> [] \<and>
                 (result_expr state \<noteq> [] \<or> create_global_specs state \<noteq> [] \<or>
                  modify_global_snippets state \<noteq> [])
           then Inl (ValidationError Export_combined)
         else if benchmark_unit state \<notin> {''seconds'', ''ms''}
           then Inl (ValidationError Bad_benchmark_unit)
         else if benchmark_mode state \<and> result_expr state = []
           then Inl (ValidationError Benchmark_requires_result)
         else if benchmark_mode state \<and>
                 (state_export_expr state \<noteq> [] \<or> create_global_specs state \<noteq> [] \<or>
                  modify_global_snippets state \<noteq> [])
           then Inl (ValidationError Benchmark_combined)
         else
           seq_r (ensure_int_string (request_id state) ''id'')
          (seq_r (ensure_int_string (timeout_seconds state) ''timeout'')
          (seq_r (ensure_int_string (rpc_timeout_seconds state) ''rpc-timeout'')
          (seq_r (for_each validate_append_snippet (append_code_snippets state))
          (seq_r (if result_expr state \<noteq> [] then validate_result_expr (result_expr state)
                  else Inr ())
          (seq_r (if state_export_expr state \<noteq> []
                    then validate_state_export_expr (state_export_expr state)
                  else Inr ())
          (seq_r (for_each (\<lambda>snippet.
                     case validate_name_expr_spec snippet ''create'' of
                       Inl e \<Rightarrow> Inl e | Inr _ \<Rightarrow> Inr ())
                   (create_global_specs state))
          (seq_r (for_each validate_modify_global_snippet (modify_global_snippets state))
            (let expect_result = (result_expr state \<noteq> [] \<or> state_export_expr state \<noteq> []);
                 append_only = (has_append \<and> \<not> has_terminal)
             in if capture_output state \<and> \<not> expect_result
                  then Inl (ValidationError Capture_output_requires_result)
                else
                  let temp = (expect_result \<and> out_path state = []);
                      the_out_path = (if temp then tmp_result else out_path state);
                      the_export_path = (if state_export_expr state \<noteq> [] then tmp_state else [])
                  in Inr \<lparr>expect_result = expect_result, ctx_out_path = the_out_path,
                          is_temp_out_path = temp, state_export_path = the_export_path,
                          append_only = append_only\<rparr>)))))))))"

subsection \<open>The timeout diagnoser\<close>

datatype file_read =
    No_file             \<comment> \<open>the property file does not exist\<close>
  | Read_failed         \<comment> \<open>reading it raises \<^verbatim>\<open>OSError\<close>\<close>
  | Contents string

definition get_executing_flag_value :: "file_read \<Rightarrow> string" where
  "get_executing_flag_value executing_file =
     (case executing_file of
        No_file \<Rightarrow> ''<missing>''
      | Read_failed \<Rightarrow> ''<missing>''
      | Contents text \<Rightarrow>
          (let executing_value = filter (\<lambda>c. \<not> is_space c) text
           in if executing_value = [] then ''<missing>'' else executing_value))"

definition session_pid_is_alive :: "(string \<Rightarrow> bool) \<Rightarrow> string \<Rightarrow> bool" where
  \<comment> \<open>the first argument answers the probe of the process table (\<^verbatim>\<open>/proc/<pid>\<close> exists
     and \<^verbatim>\<open>ps\<close> names an rsession)\<close>
  "session_pid_is_alive probe pid =
     (if pid = [] \<or> \<not> fullmatch rx_digits pid then False else probe pid)"

record diag_inputs =
  executing_file :: file_read      \<comment> \<open>the session's \<^verbatim>\<open>executing\<close> property file\<close>
  out_exists :: bool               \<comment> \<open>\<^verbatim>\<open>out_path.exists()\<close>\<close>
  out_size :: int                  \<comment> \<open>\<^verbatim>\<open>result_file_size_bytes(out_path)\<close>\<close>
  pid_value :: string              \<comment> \<open>the environment's \<^verbatim>\<open>RSTUDIO_SESSION_PID\<close>, or empty\<close>
  pid_probe :: "string \<Rightarrow> bool"
  abend_entry :: string            \<comment> \<open>\<^verbatim>\<open>extract_kv_value(state_file, "abend")\<close>\<close>

definition pid_state_of :: "diag_inputs \<Rightarrow> string" where
  "pid_state_of d =
     (if pid_value d \<noteq> [] then
        (if session_pid_is_alive (pid_probe d) (pid_value d) then ''alive''
         else if fullmatch rx_digits (pid_value d) then ''dead_or_not_rsession''
         else ''invalid'')
      else ''<missing>'')"

definition diagnose_result_wait_timeout :: "diag_inputs \<Rightarrow> string list" where
  \<comment> \<open>the list \<^verbatim>\<open>causes\<close>; the lines printed from it are not modelled\<close>
  "diagnose_result_wait_timeout d =
     (let executing_value = get_executing_flag_value (executing_file d);
          pid_state = pid_state_of d;
          abend_value = (if abend_entry d = [] then ''<missing>'' else abend_entry d);
          causes0 = [];
          causes1 = (if executing_value = ''1'' then causes0 @ [''compute_still_running'']
                     else causes0);
          causes2 = (if out_exists d \<and> out_size d = 0 \<and> executing_value \<noteq> ''1''
                       then causes1 @ [''handoff_or_write_delay''] else causes1);
          causes3 = (if \<not> out_exists d then causes2 @ [''output_path_unavailable'']
                     else causes2);
          causes4 = (if pid_state \<in> {''dead_or_not_rsession'', ''invalid''} \<or> abend_value = ''1''
                       then causes3 @ [''session_liveness_issue''] else causes3)
      in if causes4 = [] then causes4 @ [''unknown''] else causes4)"

subsection \<open>Code synthesis\<close>

definition escape_for_r_string :: "string \<Rightarrow> string" where
  "escape_for_r_string v =
     (let v1 = replace_char BSL [BSL, BSL] v;
          v2 = replace_char DQ [BSL, DQ] v1;
          v3 = replace_char NL [BSL, CHR ''n''] v2
      in v3)"

definition join_lines :: "string list \<Rightarrow> string" where
  "join_lines lines = (if lines = [] then [] else join [NL] lines @ [NL])"

definition indent_block :: "string \<Rightarrow> string \<Rightarrow> string" where
  "indent_block text indent =
     (if text = [] then []
      else concat (map (\<lambda>line. indent @ line @ [NL]) (split_on NL (rstrip_nl text))))"

definition r_line :: "string \<Rightarrow> string" where
  \<comment> \<open>one line of the fragment: the text and its newline\<close>
  "r_line s = s @ [NL]"

definition bench_t0_line :: string where
  \<open>bench_t0_line = ''.codex_bench_t0 <- proc.time()[["elapsed"]]''\<close>

definition bench_timing_line :: "string \<Rightarrow> string" where
  \<open>bench_timing_line expr =
     ''.codex_result_expr <- tryCatch({ invisible(('' @ expr @
     '')); proc.time()[["elapsed"]] - .codex_bench_t0 }, error = function(e) e)''\<close>

definition bench_scale_line :: string where
  \<open>bench_scale_line =
     ''if (!inherits(.codex_result_expr, "error")) .codex_result_expr <- .codex_result_expr * 1000''\<close>

definition result_lines :: "State \<Rightarrow> string list" where
  \<comment> \<open>what \<^verbatim>\<open>if state.result_expr:\<close> appends to \<^verbatim>\<open>r_exec_lines\<close>\<close>
  "result_lines state =
     (if result_expr state \<noteq> [] then
        (if benchmark_mode state then
           [bench_t0_line, bench_timing_line (result_expr state)] @
           (if benchmark_unit state = ''ms'' then [bench_scale_line] else [])
         else
           [''.codex_result_expr <- tryCatch(('' @ result_expr state @ ''), error = function(e) e)''])
      else [])"

definition export_lines :: "State \<Rightarrow> SendContext \<Rightarrow> string list" where
  \<comment> \<open>what \<^verbatim>\<open>if state.state_export_expr:\<close> appends to \<^verbatim>\<open>r_exec_lines\<close>\<close>
  \<open>export_lines state send_ctx =
     (if state_export_expr state \<noteq> [] then
        (let escaped_state_path = escape_for_r_string (state_export_path send_ctx)
         in [''.codex_state_export_path <- "'' @ escaped_state_path @ ''"'',
             ''.codex_state_payload <- ('' @ state_export_expr state @ '')'',
             ''saveRDS(.codex_state_payload, file = .codex_state_export_path, compress = "xz")'',
             ''rm(.codex_state_payload)'',
             ''if (!file.exists(.codex_state_export_path)) stop("State export file was not created")'',
             ''.codex_result_expr <- .codex_state_export_path''])
      else [])\<close>

definition create_lines :: "string \<Rightarrow> string \<Rightarrow> string list" where
  \<comment> \<open>the three lines of one create spec\<close>
  \<open>create_lines name expr =
     [''if (exists("'' @ name @
        ''", envir = .GlobalEnv, inherits = FALSE)) stop("CREATE_NEW_GLOBAL_VARIABLE refused: '' @
        [SQ] @ name @ [SQ] @ '' already exists in .GlobalEnv")'',
      name @ '' <- ('' @ expr @ '')'',
      ''assign("'' @ name @ ''", '' @ name @ '', envir = .GlobalEnv)'']\<close>

fun create_loop ::
  "string list \<Rightarrow> string set \<Rightarrow> string list \<Rightarrow> string list \<Rightarrow> (string list \<times> string list) result"
where
  \<comment> \<open>\<^verbatim>\<open>for spec in state.create_global_specs\<close>, from the values of \<^verbatim>\<open>seen\<close>,
     \<^verbatim>\<open>r_create_names\<close> and \<^verbatim>\<open>r_create_lines\<close> so far to their final values\<close>
  "create_loop [] seen r_create_names r_create_lines = Inr (r_create_names, r_create_lines)"
| "create_loop (spec # specs) seen r_create_names r_create_lines =
     (case validate_name_expr_spec spec ''create'' of
        Inl e \<Rightarrow> Inl e
      | Inr (name, expr) \<Rightarrow>
          if name \<in> seen then Inl (ValidationError (Duplicate_create name))
          else create_loop specs (insert name seen) (r_create_names @ [name])
                 (r_create_lines @ create_lines name expr))"

definition modify_line :: "string \<Rightarrow> string" where
  \<open>modify_line snippet =
     ''eval(parse(text = "'' @ escape_for_r_string snippet @ ''"), envir = .GlobalEnv)''\<close>

definition msg_and_run_block :: string where
  \<comment> \<open>the helper \<^verbatim>\<open>.codex_msg\<close> and the trapped call of \<^verbatim>\<open>.codex_run_core\<close>\<close>
  \<open>msg_and_run_block = concat
     [r_line ''.codex_msg <- function(x) {'',
      r_line ''  if (inherits(x, "condition")) conditionMessage(x) else as.character(x)'',
      r_line ''}'',
      r_line ''.codex_exec_error <- tryCatch({'',
      r_line ''  if (.codex_capture_output) {'',
      r_line ''    .codex_captured_stdout <- capture.output({'',
      r_line ''      withCallingHandlers({'',
      r_line ''        .codex_run_core()'',
      r_line ''      }, message = function(m) {'',
      r_line ''        .codex_captured_stderr <<- c(.codex_captured_stderr, conditionMessage(m))'',
      r_line ''        invokeRestart("muffleMessage")'',
      r_line ''      }, warning = function(w) {'',
      r_line ''        .codex_captured_stderr <<- c(.codex_captured_stderr, paste0("WARNING: ", conditionMessage(w)))'',
      r_line ''        invokeRestart("muffleWarning")'',
      r_line ''      })'',
      r_line ''    }, type = "output")'',
      r_line ''  } else {'',
      r_line ''    .codex_run_core()'',
      r_line ''  }'',
      r_line ''}, error = function(e) e)'']\<close>

definition terminal_serialization :: string where
  \<comment> \<open>the four blocks that write the outcome to the result file\<close>
  \<open>terminal_serialization = concat
     [r_line ''if (!is.null(.codex_exec_error)) {'',
      r_line ''  if (.codex_capture_output) {'',
      r_line ''    dput(list(error = .codex_msg(.codex_exec_error), stdout = .codex_captured_stdout, stderr = .codex_captured_stderr), file = .codex_result_out_path)'',
      r_line ''  } else {'',
      r_line ''    writeLines(paste0("__ERROR__:", .codex_msg(.codex_exec_error)), .codex_result_out_path)'',
      r_line ''  }'',
      r_line ''  .codex_result_written <- TRUE'',
      r_line ''}'',
      r_line ''if (is.null(.codex_exec_error) && is.null(.codex_exec_result)) {'',
      r_line ''  if (.codex_capture_output) {'',
      r_line ''    dput(list(error = "no result produced", stdout = .codex_captured_stdout, stderr = .codex_captured_stderr), file = .codex_result_out_path)'',
      r_line ''  } else {'',
      r_line ''    writeLines("__ERROR__: no result produced", .codex_result_out_path)'',
      r_line ''  }'',
      r_line ''  .codex_result_written <- TRUE'',
      r_line ''}'',
      r_line ''if (is.null(.codex_exec_error) && inherits(.codex_exec_result, "error")) {'',
      r_line ''  if (.codex_capture_output) {'',
      r_line ''    dput(list(error = .codex_msg(.codex_exec_result), stdout = .codex_captured_stdout, stderr = .codex_captured_stderr), file = .codex_result_out_path)'',
      r_line ''  } else {'',
      r_line ''    writeLines(paste0("__ERROR__:", .codex_msg(.codex_exec_result)), .codex_result_out_path)'',
      r_line ''  }'',
      r_line ''  .codex_result_written <- TRUE'',
      r_line ''}'',
      r_line ''if (is.null(.codex_exec_error) && !inherits(.codex_exec_result, "error") && !is.null(.codex_exec_result)) {'',
      r_line ''  if (.codex_capture_output) {'',
      r_line ''    dput(list(result = .codex_exec_result, stdout = .codex_captured_stdout, stderr = .codex_captured_stderr), file = .codex_result_out_path)'',
      r_line ''  } else {'',
      r_line ''    dput(.codex_exec_result, file = .codex_result_out_path)'',
      r_line ''  }'',
      r_line ''  .codex_result_written <- TRUE'',
      r_line ''}'']\<close>

definition leak_check_block :: string where
  \<comment> \<open>the re-raise of a trapped error, then the check of the global namespace\<close>
  \<open>leak_check_block = concat
     [r_line ''if (!is.null(.codex_exec_error)) {'',
      r_line ''  stop(.codex_msg(.codex_exec_error))'',
      r_line ''}'',
      r_line ''.codex_after <- ls(envir = .GlobalEnv, all.names = TRUE)'',
      r_line ''.codex_new <- setdiff(.codex_after, .codex_before)'',
      r_line ''.codex_removed <- setdiff(.codex_before, .codex_after)'',
      r_line ''.codex_unexpected_new <- setdiff(.codex_new, .codex_allowed_added)'',
      r_line ''.codex_unexpected_removed <- setdiff(.codex_removed, character(0))'',
      r_line ''if (length(.codex_unexpected_new) > 0 || length(.codex_unexpected_removed) > 0) {'',
      r_line ''  stop("Global environment leak detected")'',
      r_line ''}'']\<close>

definition allowed_added_line :: "string list \<Rightarrow> string" where
  \<comment> \<open>the assignment of \<^verbatim>\<open>.codex_allowed_added\<close>, from \<^verbatim>\<open>r_create_names\<close>\<close>
  \<open>allowed_added_line r_create_names =
     (let r_allowed_added = join '','' (map (\<lambda>name. [DQ] @ name @ [DQ]) r_create_names)
      in ''.codex_allowed_added <- c('' @ r_allowed_added @ '')'')\<close>

definition setup_block :: "State \<Rightarrow> string list \<Rightarrow> string \<Rightarrow> string" where
  \<comment> \<open>the first eight lines of the fragment\<close>
  \<open>setup_block state r_create_names out_path_escaped =
     r_line ''.codex_before <- ls(envir = .GlobalEnv, all.names = TRUE)'' @
     r_line (allowed_added_line r_create_names) @
     r_line (''.codex_result_out_path <- "'' @ out_path_escaped @ ''"'') @
     r_line (''.codex_capture_output <- '' @ (if capture_output state then ''TRUE'' else ''FALSE'')) @
     r_line ''.codex_captured_stdout <- character(0)'' @
     r_line ''.codex_captured_stderr <- character(0)'' @
     r_line ''.codex_result_written <- FALSE'' @
     r_line ''.codex_exec_result <- NULL''\<close>

definition run_core_block :: "string \<Rightarrow> string \<Rightarrow> string \<Rightarrow> string" where
  \<comment> \<open>the function \<^verbatim>\<open>.codex_run_core\<close>, from the three blocks of the request\<close>
  \<open>run_core_block r_exec_block r_create_block r_modify_block =
     r_line ''.codex_run_core <- function() {'' @
     r_line ''  .codex_exec_result <<- with(new.env(parent = .GlobalEnv), {'' @
     indent_block r_exec_block ''    '' @
     r_line ''  })'' @
     (if r_create_block \<noteq> [] then indent_block r_create_block ''  '' else []) @
     (if r_modify_block \<noteq> [] then indent_block r_modify_block ''  '' else []) @
     r_line ''}''\<close>

definition build_r_code :: "State \<Rightarrow> SendContext \<Rightarrow> string result" where
  "build_r_code state send_ctx =
     (let r_exec_lines = append_code_snippets state @ result_lines state @ export_lines state send_ctx
      in case create_loop (create_global_specs state) {} [] [] of
           Inl e \<Rightarrow> Inl e
         | Inr (r_create_names, r_create_lines) \<Rightarrow>
             let r_modify_lines = map modify_line (modify_global_snippets state);
                 r_exec_block = join_lines r_exec_lines;
                 r_create_block = join_lines r_create_lines;
                 r_modify_block = join_lines r_modify_lines;
                 out_path_escaped =
                   (if expect_result send_ctx then escape_for_r_string (ctx_out_path send_ctx)
                    else [])
             in Inr
                 (setup_block state r_create_names out_path_escaped @
                  run_core_block r_exec_block r_create_block r_modify_block @
                  msg_and_run_block @
                  (if expect_result send_ctx then terminal_serialization else []) @
                  leak_check_block))"

subsection \<open>Dispatch\<close>

record proc_result =
  \<comment> \<open>what \<^verbatim>\<open>subprocess.run(..., capture_output=True, text=True)\<close> returns\<close>
  returncode :: int
  stdout :: string
  stderr :: string

definition run_rpc_send :: "proc_result \<Rightarrow> bool \<Rightarrow> string \<Rightarrow> int \<times> string list \<times> string list" where
  \<comment> \<open>from the finished transport subprocess to the return value, what is printed to
     standard output and what is printed to standard error\<close>
  "run_rpc_send proc suppress_stdout rpc_timeout =
     (let printed = (if \<not> suppress_stdout \<and> stdout proc \<noteq> [] then [stdout proc] else []);
          errors = (if stderr proc \<noteq> [] then [stderr proc] else [])
      in if returncode proc \<in> {124, 137}
           then (124, printed, errors @ [''RPC send timed out after '' @ rpc_timeout @ ''s.''])
         else (returncode proc, printed, errors))"

record world =
  mkstemp_result :: string        \<comment> \<open>the path \<^verbatim>\<open>mkstemp\<close> gives for the result file\<close>
  mkstemp_state :: string         \<comment> \<open>the path \<^verbatim>\<open>mkstemp\<close> gives for the export file\<close>
  has_state_file :: "string \<Rightarrow> bool"
                                  \<comment> \<open>the directory holds \<^verbatim>\<open>session-persistent-state\<close>\<close>
  found_session :: "string option"
                                  \<comment> \<open>where the search of the active sessions arrives\<close>
  parse_ok :: "string \<Rightarrow> bool"     \<comment> \<open>\<^verbatim>\<open>Rscript -e parse(file = ...)\<close> returns 0 on this code\<close>
  rpc_script :: "string option"   \<comment> \<open>the low-level script, when one of its two places has it\<close>
  executing_at_precheck :: file_read
  rpc_proc :: proc_result         \<comment> \<open>the finished transport subprocess\<close>
  poll_observations :: "bool list"
                                  \<comment> \<open>one entry per pass of the polling loop before the deadline:
                                      the result file exists and is not empty\<close>
  final_observation :: bool       \<comment> \<open>the same test, after the loop\<close>
  diag :: diag_inputs

definition resolve_session_dir :: "world \<Rightarrow> State \<Rightarrow> string result" where
  "resolve_session_dir w state =
     (if session_dir state \<noteq> [] then
        (if \<not> has_state_file w (session_dir state)
           then Inl (SendError (Session_dir_without_state (session_dir state)))
         else Inr (session_dir state))
      else
        (case found_session w of
           Some candidate \<Rightarrow> Inr candidate
         | None \<Rightarrow> Inl (SendError No_active_session)))"

definition check_session_busy_before_rpc :: "file_read \<Rightarrow> bool" where
  "check_session_busy_before_rpc f =
     (let executing_value =
            (case f of Contents text \<Rightarrow> filter (\<lambda>c. \<not> is_space c) text | _ \<Rightarrow> [])
      in if executing_value = ''1'' then False else True)"

datatype event =
    Ev_resolve_session_dir
  | Ev_load_session_environment
  | Ev_build_r_code
  | Ev_warn_append_only
  | Ev_check_r_code_parse
  | Ev_write_syntax_error string
  | Ev_print_code
  | Ev_find_rpc_script
  | Ev_clear_result_file string
  | Ev_busy_precheck
  | Ev_run_rpc_send int "string list"   \<comment> \<open>return value, lines on standard error\<close>
  | Ev_enter_polling
  | Ev_poll
  | Ev_print_result
  | Ev_diagnose "string list"
  | Ev_unlink string

fun poll_loop :: "bool list \<Rightarrow> event list" where
  \<comment> \<open>\<^verbatim>\<open>while time.time() < deadline\<close>: the loop ends when the observations end (the
     deadline has passed) or at the first observation of a result\<close>
  "poll_loop [] = []"
| "poll_loop (ready # later) = Ev_poll # (if ready then [Ev_print_result] else poll_loop later)"

definition send_attempt :: "world \<Rightarrow> State \<Rightarrow> SendContext \<Rightarrow> unit result \<times> event list" where
  \<comment> \<open>the body of the \<^verbatim>\<open>try\<close> of \<^verbatim>\<open>send_current_state\<close>, with the calls it makes\<close>
  "send_attempt w state send_ctx =
     (case resolve_session_dir w state of
        Inl e \<Rightarrow> (Inl e, [Ev_resolve_session_dir])
      | Inr the_session_dir \<Rightarrow>
          (case build_r_code state send_ctx of
             Inl e \<Rightarrow> (Inl e, [Ev_resolve_session_dir, Ev_load_session_environment, Ev_build_r_code])
           | Inr r_code \<Rightarrow>
               (let t1 = [Ev_resolve_session_dir, Ev_load_session_environment, Ev_build_r_code] @
                         (if append_only send_ctx then [Ev_warn_append_only] else []) @
                         [Ev_check_r_code_parse]
                in if \<not> parse_ok w r_code then
                     (Inl (ValidationError Syntax_check_failed),
                      t1 @ (if expect_result send_ctx
                              then [Ev_write_syntax_error (ctx_out_path send_ctx)] else []))
                   else
                     (let t2 = t1 @ (if print_code state then [Ev_print_code] else []) @
                               [Ev_find_rpc_script]
                      in (case rpc_script w of
                            None \<Rightarrow> (Inl (SendError No_rpc_script), t2)
                          | Some script \<Rightarrow>
                              (let t3 = t2 @
                                        (if expect_result send_ctx
                                           then [Ev_clear_result_file (ctx_out_path send_ctx)]
                                         else []) @
                                        [Ev_busy_precheck]
                               in if \<not> check_session_busy_before_rpc (executing_at_precheck w)
                                    then (Inl (SendError Busy_precheck_failed), t3)
                                  else
                                    (let suppress_stdout = expect_result send_ctx;
                                         sent = run_rpc_send (rpc_proc w) suppress_stdout
                                                  (rpc_timeout_seconds state);
                                         rc = fst sent;
                                         t4 = t3 @ [Ev_run_rpc_send rc (snd (snd sent))]
                                     in if rc \<noteq> 0 then (Inl (SendError Rpc_send_failed), t4)
                                        else if expect_result send_ctx then
                                          (let t5 = t4 @ [Ev_enter_polling] @
                                                    poll_loop (poll_observations w)
                                           in if \<not> final_observation w then
                                                (Inl (SendError Result_wait_timed_out),
                                                 t5 @ [Ev_diagnose
                                                         (diagnose_result_wait_timeout (diag w))])
                                              else (Inr (), t5))
                                        else (Inr (), t4))))))))"

definition send_current_state :: "world \<Rightarrow> State \<Rightarrow> unit result \<times> event list" where
  "send_current_state w state =
     (case validate_state_for_send (mkstemp_result w) (mkstemp_state w) state of
        Inl e \<Rightarrow> (Inl e, [])
      | Inr send_ctx \<Rightarrow>
          (let attempt = send_attempt w state send_ctx;
               success = (case fst attempt of Inr u \<Rightarrow> True | Inl e \<Rightarrow> False)
           in (fst attempt,
               snd attempt @
               (if is_temp_out_path send_ctx \<and> ctx_out_path send_ctx \<noteq> []
                  then [Ev_unlink (ctx_out_path send_ctx)] else []) @
               (if \<not> success \<and> state_export_path send_ctx \<noteq> []
                  then [Ev_unlink (state_export_path send_ctx)] else []))))"

subsection \<open>The command loop\<close>

definition parse_bool :: "string \<Rightarrow> bool result" where
  "parse_bool v =
     (let normalized = lower (trim v)
      in if normalized \<in> {''1'', ''true'', ''on'', ''yes''} then Inr True
         else if normalized \<in> {''0'', ''false'', ''off'', ''no''} then Inr False
         else Inl (ValidationError (Invalid_boolean v)))"

definition apply_input_line :: "State \<Rightarrow> string \<Rightarrow> (State \<times> string option) result" where
  \<comment> \<open>the state after the line and the value returned; what \<^verbatim>\<open>help\<close>, \<^verbatim>\<open>show\<close> and
     \<^verbatim>\<open>clear\<close> print is not modelled. A raise leaves the state as it was: every branch
     validates before it assigns.\<close>
  "apply_input_line state line =
     (let normalized = trim line
      in if normalized = [] then Inr (state, None)
         else if normalized \<in> {''help'', ''?''} then Inr (state, None)
         else if normalized = ''show'' then Inr (state, None)
         else if normalized = ''clear'' then Inr (clear_capabilities state, None)
         else if normalized = ''send'' then Inr (state, Some ''send'')
         else if normalized \<in> {''quit'', ''exit''} then Inr (state, Some ''quit'')
         else if \<not> contains_str '':'' line then Inl (ValidationError Bad_input_form)
         else
           (case split_once '':'' line of
              None \<Rightarrow> Inl (OtherException ''ValueError'')
            | Some (pfx, payload) \<Rightarrow>
                (let key = lower (trim pfx)
                 in if key \<in> {''append'', ''append-code''} then
                      (case validate_append_snippet payload of
                         Inl e \<Rightarrow> Inl e
                       | Inr u \<Rightarrow>
                           Inr (state\<lparr>append_code_snippets :=
                                        append_code_snippets state @ [payload]\<rparr>, None))
                    else if key \<in> {''result'', ''set-result-expr''} then
                      (case validate_result_expr payload of
                         Inl e \<Rightarrow> Inl e
                       | Inr u \<Rightarrow> Inr (state\<lparr>result_expr := payload\<rparr>, None))
                    else if key \<in> {''export'', ''r-state-export''} then
                      (case validate_state_export_expr payload of
                         Inl e \<Rightarrow> Inl e
                       | Inr u \<Rightarrow> Inr (state\<lparr>state_export_expr := payload\<rparr>, None))
                    else if key \<in> {''create'', ''create-global-variable''} then
                      (case validate_name_expr_spec payload ''create'' of
                         Inl e \<Rightarrow> Inl e
                       | Inr u \<Rightarrow>
                           Inr (state\<lparr>create_global_specs :=
                                        create_global_specs state @ [payload]\<rparr>, None))
                    else if key \<in> {''modify'', ''modify-global-env''} then
                      (case validate_modify_global_snippet payload of
                         Inl e \<Rightarrow> Inl e
                       | Inr u \<Rightarrow>
                           Inr (state\<lparr>modify_global_snippets :=
                                        modify_global_snippets state @ [payload]\<rparr>, None))
                    else if key = ''session-dir'' then
                      Inr (state\<lparr>session_dir := trim payload\<rparr>, None)
                    else if key = ''id'' then
                      (case ensure_int_string (trim payload) ''id'' of
                         Inl e \<Rightarrow> Inl e
                       | Inr u \<Rightarrow> Inr (state\<lparr>request_id := trim payload\<rparr>, None))
                    else if key = ''rpostback-bin'' then
                      Inr (state\<lparr>rpostback_bin := trim payload\<rparr>, None)
                    else if key = ''out'' then
                      Inr (state\<lparr>out_path := trim payload\<rparr>, None)
                    else if key = ''timeout'' then
                      (case ensure_int_string (trim payload) ''timeout'' of
                         Inl e \<Rightarrow> Inl e
                       | Inr u \<Rightarrow> Inr (state\<lparr>timeout_seconds := trim payload\<rparr>, None))
                    else if key = ''rpc-timeout'' then
                      (case ensure_int_string (trim payload) ''rpc-timeout'' of
                         Inl e \<Rightarrow> Inl e
                       | Inr u \<Rightarrow> Inr (state\<lparr>rpc_timeout_seconds := trim payload\<rparr>, None))
                    else if key = ''benchmark'' then
                      (case parse_bool payload of
                         Inl e \<Rightarrow> Inl e
                       | Inr b \<Rightarrow> Inr (state\<lparr>benchmark_mode := b\<rparr>, None))
                    else if key = ''benchmark-unit'' then
                      (if trim payload \<notin> {''seconds'', ''ms''}
                         then Inl (ValidationError Bad_benchmark_unit)
                       else Inr (state\<lparr>benchmark_unit := trim payload\<rparr>, None))
                    else if key = ''print-code'' then
                      (case parse_bool payload of
                         Inl e \<Rightarrow> Inl e
                       | Inr b \<Rightarrow> Inr (state\<lparr>print_code := b\<rparr>, None))
                    else if key = ''capture-output'' then
                      (case parse_bool payload of
                         Inl e \<Rightarrow> Inl e
                       | Inr b \<Rightarrow> Inr (state\<lparr>capture_output := b\<rparr>, None))
                    else Inl (ValidationError (Unknown_prefix pfx)))))"

datatype repl_input =
    Line string
  | End_of_file           \<comment> \<open>\<^verbatim>\<open>input\<close> raises \<^verbatim>\<open>EOFError\<close>\<close>
  | Keyboard_interrupt    \<comment> \<open>\<^verbatim>\<open>input\<close> raises \<^verbatim>\<open>KeyboardInterrupt\<close>\<close>

datatype control =
    Continue
  | Return int

datatype report =
    Silent
  | Send_completed        \<comment> \<open>"Send completed; capability state cleared."\<close>
  | Send_failed exn       \<comment> \<open>the exception's text, printed by the \<^verbatim>\<open>except\<close> clause that catches it\<close>
  | Rejected exn          \<comment> \<open>the exception's text\<close>

definition repl_iteration :: "world \<Rightarrow> State \<Rightarrow> repl_input \<Rightarrow> State \<times> control \<times> report" where
  \<comment> \<open>one pass of \<^verbatim>\<open>while True\<close> in \<^verbatim>\<open>repl\<close>: the state after it, whether the loop
     goes on, and what the pass reports\<close>
  "repl_iteration w state inp =
     (case inp of
        End_of_file \<Rightarrow> (state, Return 0, Silent)
      | Keyboard_interrupt \<Rightarrow> (state, Return 130, Silent)
      | Line line \<Rightarrow>
          (case apply_input_line state line of
             Inl e \<Rightarrow> (state, Continue, Rejected e)
           | Inr (state1, action) \<Rightarrow>
               if action = Some ''quit'' then (state1, Return 0, Silent)
               else if action = Some ''send'' then
                 (case fst (send_current_state w state1) of
                    Inr u \<Rightarrow> (clear_capabilities state1, Continue, Send_completed)
                  | Inl e \<Rightarrow> (clear_capabilities state1, Continue, Send_failed e))
               else (state1, Continue, Silent)))"

fun repl :: "State \<Rightarrow> (world \<times> repl_input) list \<Rightarrow> int \<times> State" where
  \<comment> \<open>the loop on the inputs it is given, each with the world its pass runs in; the
     inputs end with the end of the input stream. The other branch of \<^verbatim>\<open>repl\<close>, which hands
     command-line arguments to the low-level script, is not modelled.\<close>
  "repl state [] = (0, state)"
| "repl state ((w, inp) # later) =
     (case repl_iteration w state inp of
        (state1, Continue, r) \<Rightarrow> repl state1 later
      | (state1, Return code, r) \<Rightarrow> (code, state1))"

subsection \<open>Predicates of the claims\<close>

definition spec_identifier :: "string \<Rightarrow> bool" where
  \<comment> \<open>the identifier pattern \<^verbatim>\<open>[A-Za-z.][A-Za-z0-9._]*\<close> read character by character,
     to compare with \<open>fullmatch rx_identifier\<close>\<close>
  "spec_identifier v =
     (case v of
        [] \<Rightarrow> False
      | c # cs \<Rightarrow>
          (is_upper c \<or> is_lower c \<or> c = CHR ''.'') \<and>
          list_all (\<lambda>d. is_upper d \<or> is_lower d \<or> is_digit d \<or> d = CHR ''.'' \<or> d = CHR ''_'') cs)"

definition is_arrow :: "string \<Rightarrow> bool" where
  \<comment> \<open>the two assignment arrows\<close>
  "is_arrow t = (t = ''<-'' \<or> t = ''->'')"



subsection \<open>Sample requests\<close>

definition leaking_request :: State where
  \<comment> \<open>the request made by the input lines \<^verbatim>\<open>modify:leaked <- 1\<close> and \<^verbatim>\<open>send\<close>\<close>
  "leaking_request = initial_State\<lparr>modify_global_snippets := [''leaked <- 1'']\<rparr>"


subsection \<open>A sample world\<close>

definition sample_world :: world where
  "sample_world =
     \<lparr>mkstemp_result = ''/tmp/codex_rstudio_capability_result_a.txt'',
      mkstemp_state = ''/tmp/codex_rstudio_state_b.rds'',
      has_state_file = (\<lambda>d. True),
      found_session = Some ''/home/u/.local/share/rstudio/sessions/active/session-1'',
      parse_ok = (\<lambda>code. True),
      rpc_script = Some ''/opt/scripts/communicate_with_rstudio_console_with_rpc_low_level.py'',
      executing_at_precheck = Contents ''0'',
      rpc_proc = \<lparr>returncode = 124, stdout = [], stderr = []\<rparr>,
      poll_observations = [False, True],
      final_observation = True,
      diag = \<lparr>executing_file = Contents ''0'', out_exists = True, out_size = 0,
              pid_value = ''4242'', pid_probe = (\<lambda>pid. True), abend_entry = ''0''\<rparr>\<rparr>"

section \<open>Properties\<close>

subsection \<open>Strings and patterns\<close>

lemma starts_with_iff: "starts_with p s \<longleftrightarrow> (\<exists>v. s = p @ v)"
  by (induction p s rule: starts_with.induct) auto

lemma contains_str_iff: "contains_str sub s \<longleftrightarrow> (\<exists>u v. s = u @ sub @ v)"
proof (induction s)
  case Nil
  then show ?case by (auto simp: starts_with_iff)
next
  case (Cons c cs)
  show ?case
  proof
    assume "contains_str sub (c # cs)"
    then consider "starts_with sub (c # cs)" | "contains_str sub cs" by auto
    then show "\<exists>u v. c # cs = u @ sub @ v"
    proof cases
      case 1
      then obtain v where "c # cs = sub @ v" by (auto simp: starts_with_iff)
      then have "c # cs = [] @ sub @ v" by simp
      then show ?thesis by blast
    next
      case 2
      then obtain u v where "cs = u @ sub @ v" using Cons.IH by blast
      then have "c # cs = (c # u) @ sub @ v" by simp
      then show ?thesis by blast
    qed
  next
    assume "\<exists>u v. c # cs = u @ sub @ v"
    then obtain u v where uv: "c # cs = u @ sub @ v" by blast
    show "contains_str sub (c # cs)"
    proof (cases u)
      case Nil
      then have "starts_with sub (c # cs)" using uv by (auto simp: starts_with_iff)
      then show ?thesis by simp
    next
      case (Cons a u')
      then have "cs = u' @ sub @ v" using uv by simp
      then have "contains_str sub cs" using Cons.IH by blast
      then show ?thesis by simp
    qed
  qed
qed

lemma split_once_Some:
  "split_once sep s = Some (a, b) \<Longrightarrow> s = a @ sep @ b"
proof (induction s arbitrary: a b)
  case Nil
  then show ?case by (auto split: if_splits)
next
  case (Cons c cs)
  show ?case
  proof (cases "starts_with sep (c # cs)")
    case True
    then obtain v where v: "c # cs = sep @ v" by (auto simp: starts_with_iff)
    from True Cons.prems have "a = []" "b = drop (length sep) (c # cs)" by auto
    then show ?thesis using v by simp
  next
    case False
    with Cons.prems obtain a' where "split_once sep cs = Some (a', b)" "a = c # a'"
      by (auto split: option.splits)
    then show ?thesis using Cons.IH by auto
  qed
qed

lemma split_once_None: "split_once sep s = None \<longleftrightarrow> \<not> contains_str sep s"
  by (induction s) (auto split: option.splits simp: starts_with_iff)

lemma search_from_iff:
  "search_from ic r p s \<longleftrightarrow>
     (\<exists>u v. s = u @ v \<and> rx_ends ic r (if u = [] then p else Some (last u)) v \<noteq> [])"
proof (induction s arbitrary: p)
  case Nil
  then show ?case by auto
next
  case (Cons c cs)
  show ?case
  proof
    assume "search_from ic r p (c # cs)"
    then consider "rx_ends ic r p (c # cs) \<noteq> []" | "search_from ic r (Some c) cs" by auto
    then show "\<exists>u v. c # cs = u @ v \<and> rx_ends ic r (if u = [] then p else Some (last u)) v \<noteq> []"
    proof cases
      case 1
      then have "c # cs = [] @ (c # cs) \<and> rx_ends ic r (if [] = ([]::string) then p else Some (last [])) (c # cs) \<noteq> []"
        by simp
      then show ?thesis by blast
    next
      case 2
      then obtain u v where uv: "cs = u @ v" "rx_ends ic r (if u = [] then Some c else Some (last u)) v \<noteq> []"
        using Cons.IH by blast
      then have "c # cs = (c # u) @ v \<and> rx_ends ic r (if c # u = [] then p else Some (last (c # u))) v \<noteq> []"
        by auto
      then show ?thesis by blast
    qed
  next
    assume "\<exists>u v. c # cs = u @ v \<and> rx_ends ic r (if u = [] then p else Some (last u)) v \<noteq> []"
    then obtain u v where uv: "c # cs = u @ v" "rx_ends ic r (if u = [] then p else Some (last u)) v \<noteq> []"
      by blast
    show "search_from ic r p (c # cs)"
    proof (cases u)
      case Nil
      then show ?thesis using uv by auto
    next
      case (Cons a u')
      then have "cs = u' @ v" "rx_ends ic r (if u' = [] then Some c else Some (last u')) v \<noteq> []"
        using uv by (auto split: if_splits)
      then have "search_from ic r (Some c) cs" using Cons.IH by blast
      then show ?thesis by simp
    qed
  qed
qed

lemma of_char_lt_256: "(of_char c :: nat) < 256"
  by (cases c) (simp add: of_char_def bit_simps)

lemma lit_eq_caseless:
  assumes "\<not> is_upper a" "\<not> is_lower a"
  shows "lit_eq ic a c \<longleftrightarrow> a = c"
proof (cases "is_upper c")
  case True
  then have "of_char (char_of ((of_char c :: nat) + 32)) = (of_char c :: nat) + 32"
    by (simp add: is_upper_def)
  then have "is_lower (char_of ((of_char c :: nat) + 32))"
    using True by (simp add: is_lower_def is_upper_def)
  then have "a \<noteq> char_of ((of_char c :: nat) + 32)" using assms by auto
  moreover have "a \<noteq> c" using True assms by auto
  ultimately show ?thesis using True assms by (simp add: lit_eq_def ascii_lower_def)
next
  case False
  then show ?thesis using assms by (simp add: lit_eq_def ascii_lower_def)
qed

lemma word_ends:
  assumes "\<forall>a \<in> set w. \<not> is_upper a \<and> \<not> is_lower a"
  shows "rx_ends ic (word w) p s \<noteq> [] \<longleftrightarrow> starts_with w s"
  using assms
proof (induction w arbitrary: p s)
  case Nil
  then show ?case by (simp add: word_def)
next
  case (Cons a w)
  have unfold: "word (a # w) = Seq (Lit a) (word w)" by (simp add: word_def)
  show ?case
  proof (cases s)
    case Nil
    then show ?thesis by (simp add: unfold one_end_def)
  next
    case (Cons c cs)
    have "lit_eq ic a c \<longleftrightarrow> a = c" using Cons.prems by (intro lit_eq_caseless) auto
    moreover have "rx_ends ic (word w) (Some c) cs \<noteq> [] \<longleftrightarrow> starts_with w cs"
      using Cons.IH Cons.prems by auto
    ultimately show ?thesis using Cons by (auto simp: unfold one_end_def)
  qed
qed

lemma contains_regex_word:
  assumes "\<forall>a \<in> set w. \<not> is_upper a \<and> \<not> is_lower a"
  shows "contains_regex s (word w) \<longleftrightarrow> contains_str w s"
  unfolding contains_regex_def search_from_iff contains_str_iff word_ends [OF assms] starts_with_iff
  by auto

lemma contains_left_arrow: "contains_regex s rx_left_arrow \<longleftrightarrow> contains_str ''<-'' s"
  unfolding rx_left_arrow_def by (rule contains_regex_word) (simp add: is_upper_def is_lower_def)

lemma contains_right_arrow: "contains_regex s rx_right_arrow \<longleftrightarrow> contains_str ''->'' s"
  unfolding rx_right_arrow_def by (rule contains_regex_word) (simp add: is_upper_def is_lower_def)


lemma star_ends_full: "(\<exists>q. (q, []) \<in> set (star_ends P p s)) \<longleftrightarrow> list_all P s"
  by (induction s arbitrary: p) auto

lemma star_ends_nonempty: "star_ends P p s \<noteq> []"
  by (cases s) auto

lemma fullmatch_identifier: "fullmatch rx_identifier v \<longleftrightarrow> spec_identifier v"
proof (cases v)
  case Nil
  then show ?thesis
    by (simp add: fullmatch_def rx_identifier_def seqs_def one_end_def spec_identifier_def)
next
  case (Cons c cs)
  have first: "in_csets False c [Range CHR ''A'' CHR ''Z'', Range CHR ''a'' CHR ''z'', One CHR ''.'']
                 \<longleftrightarrow> is_upper c \<or> is_lower c \<or> c = CHR ''.''"
    by (auto simp: in_csets_def is_upper_def is_lower_def)
  have rest: "(\<lambda>d. in_csets False d [Range CHR ''A'' CHR ''Z'', Range CHR ''a'' CHR ''z'',
                       Range CHR ''0'' CHR ''9'', One CHR ''.'', One CHR ''_'']) =
              (\<lambda>d. is_upper d \<or> is_lower d \<or> is_digit d \<or> d = CHR ''.'' \<or> d = CHR ''_'')"
    by (auto simp: in_csets_def is_upper_def is_lower_def is_digit_def fun_eq_iff)
  show ?thesis
    using star_ends_full [of "\<lambda>d. is_upper d \<or> is_lower d \<or> is_digit d \<or> d = CHR ''.'' \<or> d = CHR ''_''"
                             "Some c" cs]
    by (auto simp: Cons fullmatch_def rx_identifier_def seqs_def one_end_def spec_identifier_def
          first rest)
qed

lemma identifier_no_minus: "fullmatch rx_identifier v \<Longrightarrow> CHR ''-'' \<notin> set v"
  by (auto simp: fullmatch_identifier spec_identifier_def list_all_iff is_upper_def is_lower_def
        is_digit_def split: list.splits)

lemma contains_str_dropWhile:
  assumes "w \<noteq> []" "\<not> P (hd w)" "contains_str w x"
  shows "contains_str w (dropWhile P x)"
  using assms
proof (induction x)
  case Nil
  then show ?case by simp
next
  case (Cons c cs)
  show ?case
  proof (cases "P c")
    case True
    then have "\<not> starts_with w (c # cs)" using Cons.prems by (cases w) auto
    then have "contains_str w cs" using Cons.prems by simp
    then show ?thesis using True Cons by simp
  next
    case False
    then show ?thesis using Cons.prems by simp
  qed
qed

lemma contains_str_rev: "contains_str (rev w) (rev x) \<longleftrightarrow> contains_str w x"
proof -
  have "(\<exists>u v. rev x = u @ rev w @ v) \<longleftrightarrow> (\<exists>u v. x = u @ w @ v)"
  proof
    assume "\<exists>u v. rev x = u @ rev w @ v"
    then obtain u v where "rev x = u @ rev w @ v" by blast
    then have "rev (rev x) = rev (u @ rev w @ v)" by simp
    then have "x = rev v @ w @ rev u" by simp
    then show "\<exists>u v. x = u @ w @ v" by blast
  next
    assume "\<exists>u v. x = u @ w @ v"
    then obtain u v where "x = u @ w @ v" by blast
    then have "rev x = rev v @ rev w @ rev u" by simp
    then show "\<exists>u v. rev x = u @ rev w @ v" by blast
  qed
  then show ?thesis by (simp add: contains_str_iff)
qed

lemma contains_str_trim:
  assumes "w \<noteq> []" "\<not> is_space (hd w)" "\<not> is_space (last w)" "contains_str w x"
  shows "contains_str w (trim x)"
proof -
  have "contains_str w (dropWhile is_space x)"
    using assms by (intro contains_str_dropWhile) auto
  then have "contains_str (rev w) (rev (dropWhile is_space x))"
    by (simp add: contains_str_rev)
  then have "contains_str (rev w) (dropWhile is_space (rev (dropWhile is_space x)))"
    using assms by (intro contains_str_dropWhile) (auto simp: hd_rev)
  then show ?thesis
    unfolding trim_def using contains_str_rev [of "rev w"] by simp
qed

lemma contains_str_member: "contains_str w x \<Longrightarrow> set w \<subseteq> set x"
  by (auto simp: contains_str_iff)

lemma contains_pair_append:
  "contains_str [a, b] (x @ y) \<Longrightarrow>
     contains_str [a, b] x \<or> contains_str [a, b] y \<or> (x \<noteq> [] \<and> y \<noteq> [] \<and> last x = a \<and> hd y = b)"
proof (induction x)
  case Nil
  then show ?case by simp
next
  case (Cons c cs)
  from Cons.prems consider "starts_with [a, b] (c # cs @ y)" | "contains_str [a, b] (cs @ y)"
    by auto
  then show ?case
  proof cases
    case 1
    then show ?thesis by (cases cs; cases y) auto
  next
    case 2
    then show ?thesis using Cons.IH by auto
  qed
qed

lemma arrow_in_spec:
  assumes "is_arrow t" "contains_str t (n @ '':='' @ e)"
  shows "contains_str t n \<or> contains_str t e"
proof -
  obtain a b where t: "t = [a, b]" "a \<noteq> CHR ''='' " "b \<noteq> CHR '':''" "t \<noteq> '':=''"
    using assms(1) by (auto simp: is_arrow_def)
  from assms(2) have "contains_str t n \<or> contains_str t ('':='' @ e)"
    using contains_pair_append [of a b n "'':='' @ e"] t by auto
  moreover have "contains_str t e" if "contains_str t ('':='' @ e)"
  proof -
    have "\<not> contains_str t '':=''" using t by auto
    then show ?thesis using contains_pair_append [of a b "'':=''" e] that t by auto
  qed
  ultimately show ?thesis by blast
qed

lemma assignment_free_rejects:
  assumes "is_arrow t" "contains_str t code"
  shows "isl (validate_assignment_free code label)"
  using assms
  by (auto simp: validate_assignment_free_def contains_left_arrow contains_right_arrow is_arrow_def)

lemma result_rejects_arrow:
  assumes "is_arrow t" "contains_str t code"
  shows "isl (validate_result_expr code)"
  using assignment_free_rejects [OF assms]
  by (auto simp: validate_result_expr_def split: sum.splits)

lemma export_rejects_arrow:
  assumes "is_arrow t" "contains_str t code"
  shows "isl (validate_state_export_expr code)"
  using assignment_free_rejects [OF assms]
  by (auto simp: validate_state_export_expr_def split: sum.splits)

lemma create_rejects_arrow:
  assumes "is_arrow t" "contains_str t spec"
  shows "isl (validate_name_expr_spec spec label)"
proof (cases "split_once '':='' spec")
  case None
  then show ?thesis by (simp add: validate_name_expr_spec_def split_once_None)
next
  case (Some ne)
  obtain n e where ne: "ne = (n, e)" by (cases ne)
  have spec: "spec = n @ '':='' @ e" using Some ne by (auto dest: split_once_Some)
  have has: "contains_str '':='' spec" using Some split_once_None [of "'':=''" spec] by auto
  have t: "t \<noteq> []" "\<not> is_space (hd t)" "\<not> is_space (last t)" "CHR ''-'' \<in> set t"
    using assms(1) by (auto simp: is_arrow_def is_space_def)
  from arrow_in_spec [OF assms(1)] assms(2) spec
  consider "contains_str t n" | "contains_str t e" by blast
  then show ?thesis
  proof cases
    case 1
    then have "contains_str t (trim n)" using t by (intro contains_str_trim)
    then have "CHR ''-'' \<in> set (trim n)" using t contains_str_member by blast
    then have "\<not> fullmatch rx_identifier (trim n)" using identifier_no_minus by blast
    then show ?thesis
      using Some ne has by (simp add: validate_name_expr_spec_def Let_def validate_identifier_def)
  next
    case 2
    then have "contains_str t (trim e)" using t by (intro contains_str_trim)
    then have "isl (validate_assignment_free (trim e) l)" for l
      using assignment_free_rejects [OF assms(1)] by blast
    then have "validate_assignment_free (trim e) l \<noteq> Inr u" for l u
      by (metis sum.disc(2))
    then show ?thesis
      using Some ne has
      by (auto simp: validate_name_expr_spec_def Let_def split: sum.splits)
  qed
qed

lemma blocklist_rejects:
  assumes "regex \<in> set COMMON_BLOCKED_PATTERNS" "contains_regex code regex"
  shows "isl (validate_common_blocklist code label)"
proof -
  have "find (contains_regex code) COMMON_BLOCKED_PATTERNS \<noteq> None"
    using assms by (auto simp: find_None_iff)
  then show ?thesis by (auto simp: validate_common_blocklist_def)
qed

lemma blocklist_rejects_double_arrow:
  assumes "contains_str ''<<-'' code \<or> contains_str ''->>'' code"
  shows "isl (validate_common_blocklist code label)"
proof -
  have l: "contains_regex code (word ''<<-'') \<longleftrightarrow> contains_str ''<<-'' code"
    by (rule contains_regex_word) (simp add: is_upper_def is_lower_def)
  have r: "contains_regex code (word ''->>'') \<longleftrightarrow> contains_str ''->>'' code"
    by (rule contains_regex_word) (simp add: is_upper_def is_lower_def)
  have "contains_regex code (word ''<<-'') \<or> contains_regex code (word ''->>'')"
    using assms l r by blast
  then show ?thesis
  proof
    assume "contains_regex code (word ''<<-'')"
    then show ?thesis
      by (rule blocklist_rejects [rotated]) (simp add: COMMON_BLOCKED_PATTERNS_def)
  next
    assume "contains_regex code (word ''->>'')"
    then show ?thesis
      by (rule blocklist_rejects [rotated]) (simp add: COMMON_BLOCKED_PATTERNS_def)
  qed
qed

subsection \<open>Assignment arrows\<close>

text \<open>
  Claim C2, as the code has it. A fragment that contains \<^verbatim>\<open><-\<close> or \<^verbatim>\<open>->\<close> is rejected as a
  result expression, as an export expression and as a create spec (also when it is the
  expression part of the spec). The validators of append and modify snippets do not
  look for the single arrows: they reject every fragment that contains \<^verbatim>\<open><<-\<close> or \<^verbatim>\<open>->>\<close>.
\<close>

theorem arrows_rejected_by_result_export_create:
  "(contains_str ''<-'' code \<or> contains_str ''->'' code \<longrightarrow>
      isl (validate_result_expr code) \<and> isl (validate_state_export_expr code) \<and>
      isl (validate_name_expr_spec code label) \<and>
      isl (validate_name_expr_spec (name_part @ '':='' @ code) label)) \<and>
   (contains_str ''<<-'' code \<or> contains_str ''->>'' code \<longrightarrow>
      isl (validate_append_snippet code) \<and> isl (validate_modify_global_snippet code))"
proof -
  have a: "isl (validate_result_expr code) \<and> isl (validate_state_export_expr code) \<and>
      isl (validate_name_expr_spec code label) \<and>
      isl (validate_name_expr_spec (name_part @ '':='' @ code) label)"
    if "contains_str ''<-'' code \<or> contains_str ''->'' code"
  proof -
    from that obtain t where t: "is_arrow t" "contains_str t code"
      by (auto simp: is_arrow_def)
    have "contains_str t (name_part @ '':='' @ code)"
      using t(2) unfolding contains_str_iff by (metis append.assoc)
    then show ?thesis
      using result_rejects_arrow [OF t] export_rejects_arrow [OF t] create_rejects_arrow [OF t(1)] t(2)
      by blast
  qed
  have b: "isl (validate_append_snippet code) \<and> isl (validate_modify_global_snippet code)"
    if "contains_str ''<<-'' code \<or> contains_str ''->>'' code"
    using blocklist_rejects_double_arrow [OF that, of "''Appended code''"]
      blocklist_rejects_double_arrow [OF that, of "''Global-modify code''"]
    by (auto simp: validate_append_snippet_def validate_modify_global_snippet_def split: sum.splits)
  show ?thesis using a b by blast
qed

theorem arrows_rejected_by_result_export_create_witness:
  "contains_str ''<-'' ''y <- 1'' \<and>
   validate_result_expr ''y <- 1'' = Inl (ValidationError (Left_arrow ''Result expression'')) \<and>
   isl (validate_name_expr_spec (''x'' @ '':='' @ ''y <- 1'') ''create'') \<and>
   contains_str ''<<-'' ''y <<- 1'' \<and> isl (validate_append_snippet ''y <<- 1'')"
proof -
  have a: "contains_str ''<-'' ''y <- 1''" "contains_str ''<<-'' ''y <<- 1''"
    by code_simp+
  have b: "validate_result_expr ''y <- 1'' = Inl (ValidationError (Left_arrow ''Result expression''))"
    by code_simp
  show ?thesis
    using arrows_rejected_by_result_export_create [of "''y <- 1''" "''create''" "''x''"]
      arrows_rejected_by_result_export_create [of "''y <<- 1''" "''create''" "''x''"] a b
    by blast
qed

text \<open>
  The claim as stated fails for the append and modify roles: \<^verbatim>\<open>x <- 1\<close> contains the
  left arrow and both validators accept it.
\<close>

theorem append_and_modify_accept_arrow_counterexample:
  "contains_str ''<-'' ''x <- 1'' \<and>
   validate_append_snippet ''x <- 1'' = Inr () \<and>
   validate_modify_global_snippet ''x <- 1'' = Inr ()"
  by code_simp

subsection \<open>Create specs\<close>

lemma validate_name_expr_spec_split:
  assumes "split_once '':='' spec = Some (n, e)"
  shows "validate_name_expr_spec spec l =
     (if trim n = [] \<or> trim e = [] then Inl (ValidationError (Requires_non_empty l))
      else if \<not> spec_identifier (trim n)
        then Inl (ValidationError (Invalid_identifier (l @ '' name'') (trim n)))
      else if contains_regex (trim e) rx_incomplete
        then Inl (ValidationError (Looks_incomplete l (trim n)))
      else
        (case validate_common_blocklist (trim e) (l @ '' expression '' @ [SQ] @ trim n @ [SQ]) of
           Inl x \<Rightarrow> Inl x
         | Inr u \<Rightarrow>
             (case validate_assignment_free (trim e) (l @ '' expression '' @ [SQ] @ trim n @ [SQ]) of
                Inl x \<Rightarrow> Inl x
              | Inr u \<Rightarrow> Inr (trim n, trim e))))"
proof -
  have has: "contains_str '':='' spec" using assms split_once_None [of "'':=''" spec] by auto
  show ?thesis
    using assms has
    by (simp add: validate_name_expr_spec_def Let_def validate_identifier_def fullmatch_identifier
          split: sum.split)
qed

text \<open>
  Claim C8, as the code has it. \<open>validate_name_expr_spec\<close> fails when the spec lacks
  \<^verbatim>\<open>:=\<close>, when the trimmed name or the trimmed expression is empty, and when the trimmed
  name does not match the identifier pattern. A spec that passes these three checks, the
  truncation check, the common blocklist and the check that the expression is free of
  assignment arrows yields the trimmed name and expression; and only such a spec yields
  a pair.
\<close>

theorem create_spec_validation:
  "(\<not> contains_str '':='' spec \<longrightarrow>
      validate_name_expr_spec spec l = Inl (ValidationError (Requires_name_expr l))) \<and>
   (\<forall>n e. split_once '':='' spec = Some (n, e) \<longrightarrow>
      spec = n @ '':='' @ e \<and>
      (trim n = [] \<or> trim e = [] \<longrightarrow>
         validate_name_expr_spec spec l = Inl (ValidationError (Requires_non_empty l))) \<and>
      (trim n \<noteq> [] \<and> trim e \<noteq> [] \<and> \<not> spec_identifier (trim n) \<longrightarrow>
         validate_name_expr_spec spec l =
           Inl (ValidationError (Invalid_identifier (l @ '' name'') (trim n)))) \<and>
      (trim n \<noteq> [] \<and> trim e \<noteq> [] \<and> spec_identifier (trim n) \<and>
       \<not> contains_regex (trim e) rx_incomplete \<and>
       validate_common_blocklist (trim e) (l @ '' expression '' @ [SQ] @ trim n @ [SQ]) = Inr () \<and>
       validate_assignment_free (trim e) (l @ '' expression '' @ [SQ] @ trim n @ [SQ]) = Inr () \<longrightarrow>
         validate_name_expr_spec spec l = Inr (trim n, trim e))) \<and>
   (\<forall>name expr. validate_name_expr_spec spec l = Inr (name, expr) \<longrightarrow>
      (\<exists>n e. split_once '':='' spec = Some (n, e) \<and> name = trim n \<and> expr = trim e \<and>
         name \<noteq> [] \<and> expr \<noteq> [] \<and> spec_identifier name \<and>
         \<not> contains_regex expr rx_incomplete \<and>
         validate_common_blocklist expr (l @ '' expression '' @ [SQ] @ name @ [SQ]) = Inr () \<and>
         validate_assignment_free expr (l @ '' expression '' @ [SQ] @ name @ [SQ]) = Inr ()))"
proof -
  have a: "validate_name_expr_spec spec l = Inl (ValidationError (Requires_name_expr l))"
    if "\<not> contains_str '':='' spec"
    using that by (simp add: validate_name_expr_spec_def)
  have b: "spec = n @ '':='' @ e \<and>
      (trim n = [] \<or> trim e = [] \<longrightarrow>
         validate_name_expr_spec spec l = Inl (ValidationError (Requires_non_empty l))) \<and>
      (trim n \<noteq> [] \<and> trim e \<noteq> [] \<and> \<not> spec_identifier (trim n) \<longrightarrow>
         validate_name_expr_spec spec l =
           Inl (ValidationError (Invalid_identifier (l @ '' name'') (trim n)))) \<and>
      (trim n \<noteq> [] \<and> trim e \<noteq> [] \<and> spec_identifier (trim n) \<and>
       \<not> contains_regex (trim e) rx_incomplete \<and>
       validate_common_blocklist (trim e) (l @ '' expression '' @ [SQ] @ trim n @ [SQ]) = Inr () \<and>
       validate_assignment_free (trim e) (l @ '' expression '' @ [SQ] @ trim n @ [SQ]) = Inr () \<longrightarrow>
         validate_name_expr_spec spec l = Inr (trim n, trim e))"
    if s: "split_once '':='' spec = Some (n, e)" for n e
  proof -
    have "spec = n @ '':='' @ e" using s by (auto dest: split_once_Some)
    moreover have "validate_name_expr_spec spec l = Inl (ValidationError (Requires_non_empty l))"
      if "trim n = [] \<or> trim e = []"
      using that by (simp add: validate_name_expr_spec_split [OF s])
    moreover have "validate_name_expr_spec spec l =
           Inl (ValidationError (Invalid_identifier (l @ '' name'') (trim n)))"
      if "trim n \<noteq> [] \<and> trim e \<noteq> [] \<and> \<not> spec_identifier (trim n)"
      using that by (simp add: validate_name_expr_spec_split [OF s])
    moreover have "validate_name_expr_spec spec l = Inr (trim n, trim e)"
      if "trim n \<noteq> [] \<and> trim e \<noteq> [] \<and> spec_identifier (trim n) \<and>
       \<not> contains_regex (trim e) rx_incomplete \<and>
       validate_common_blocklist (trim e) (l @ '' expression '' @ [SQ] @ trim n @ [SQ]) = Inr () \<and>
       validate_assignment_free (trim e) (l @ '' expression '' @ [SQ] @ trim n @ [SQ]) = Inr ()"
      using that by (simp add: validate_name_expr_spec_split [OF s])
    ultimately show ?thesis by blast
  qed
  have c: "\<exists>n e. split_once '':='' spec = Some (n, e) \<and> name = trim n \<and> expr = trim e \<and>
         name \<noteq> [] \<and> expr \<noteq> [] \<and> spec_identifier name \<and>
         \<not> contains_regex expr rx_incomplete \<and>
         validate_common_blocklist expr (l @ '' expression '' @ [SQ] @ name @ [SQ]) = Inr () \<and>
         validate_assignment_free expr (l @ '' expression '' @ [SQ] @ name @ [SQ]) = Inr ()"
    if h: "validate_name_expr_spec spec l = Inr (name, expr)" for name expr
  proof -
    have "contains_str '':='' spec" using a h by auto
    then obtain n e where s: "split_once '':='' spec = Some (n, e)"
      using split_once_None [of "'':=''" spec] by (cases "split_once '':='' spec") auto
    have "name = trim n \<and> expr = trim e \<and>
         name \<noteq> [] \<and> expr \<noteq> [] \<and> spec_identifier name \<and>
         \<not> contains_regex expr rx_incomplete \<and>
         validate_common_blocklist expr (l @ '' expression '' @ [SQ] @ name @ [SQ]) = Inr () \<and>
         validate_assignment_free expr (l @ '' expression '' @ [SQ] @ name @ [SQ]) = Inr ()"
      using h unfolding validate_name_expr_spec_split [OF s]
      by (cases "validate_common_blocklist (trim e) (l @ '' expression '' @ [SQ] @ trim n @ [SQ])";
          cases "validate_assignment_free (trim e) (l @ '' expression '' @ [SQ] @ trim n @ [SQ])")
         (simp_all split: if_splits)
    then show ?thesis using s by blast
  qed
  show ?thesis using a b c by blast
qed

theorem create_spec_validation_witness:
  "validate_name_expr_spec '' total := sum(x) '' ''create'' = Inr (''total'', ''sum(x)'') \<and>
   validate_name_expr_spec ''total = sum(x)'' ''create'' =
     Inl (ValidationError (Requires_name_expr ''create'')) \<and>
   validate_name_expr_spec '' := sum(x)'' ''create'' =
     Inl (ValidationError (Requires_non_empty ''create'')) \<and>
   validate_name_expr_spec ''2nd := sum(x)'' ''create'' =
     Inl (ValidationError (Invalid_identifier ''create name'' ''2nd'')) \<and>
   (\<exists>n e. split_once '':='' '' total := sum(x) '' = Some (n, e) \<and> ''total'' = trim n \<and>
          ''sum(x)'' = trim e)"
proof -
  have s: "split_once '':='' '' total := sum(x) '' = Some ('' total '', '' sum(x) '')"
    "split_once '':='' '' := sum(x)'' = Some ('' '', '' sum(x)'')"
    "split_once '':='' ''2nd := sum(x)'' = Some (''2nd '', '' sum(x)'')"
    by code_simp+
  have t: "trim '' total '' = ''total''" "trim '' sum(x) '' = ''sum(x)''" "trim '' '' = []"
    "trim ''2nd '' = ''2nd''" "trim '' sum(x)'' = ''sum(x)''"
    by code_simp+
  have k: "spec_identifier ''total'' \<and> \<not> contains_regex ''sum(x)'' rx_incomplete \<and>
       validate_common_blocklist ''sum(x)'' (''create'' @ '' expression '' @ [SQ] @ ''total'' @ [SQ]) = Inr () \<and>
       validate_assignment_free ''sum(x)'' (''create'' @ '' expression '' @ [SQ] @ ''total'' @ [SQ]) = Inr ()"
    by code_simp
  have i: "\<not> spec_identifier ''2nd''"
    by code_simp
  have n: "\<not> contains_str '':='' ''total = sum(x)''"
    by code_simp
  have k': "trim '' total '' \<noteq> [] \<and> trim '' sum(x) '' \<noteq> [] \<and> spec_identifier (trim '' total '') \<and>
       \<not> contains_regex (trim '' sum(x) '') rx_incomplete \<and>
       validate_common_blocklist (trim '' sum(x) '')
         (''create'' @ '' expression '' @ [SQ] @ trim '' total '' @ [SQ]) = Inr () \<and>
       validate_assignment_free (trim '' sum(x) '')
         (''create'' @ '' expression '' @ [SQ] @ trim '' total '' @ [SQ]) = Inr ()"
    unfolding t using k by simp
  have "validate_name_expr_spec '' total := sum(x) '' ''create'' =
          Inr (trim '' total '', trim '' sum(x) '')"
    using create_spec_validation [of "'' total := sum(x) ''" "''create''"] s(1) k' by blast
  then have 1: "validate_name_expr_spec '' total := sum(x) '' ''create'' =
                  Inr (''total'', ''sum(x)'')"
    using t by simp
  have 2: "validate_name_expr_spec ''total = sum(x)'' ''create'' =
     Inl (ValidationError (Requires_name_expr ''create''))"
    using create_spec_validation [of "''total = sum(x)''" "''create''"] n by blast
  have 3: "validate_name_expr_spec '' := sum(x)'' ''create'' =
     Inl (ValidationError (Requires_non_empty ''create''))"
    using create_spec_validation [of "'' := sum(x)''" "''create''"] s(2) t(3) by blast
  have i': "trim ''2nd '' \<noteq> [] \<and> trim '' sum(x)'' \<noteq> [] \<and> \<not> spec_identifier (trim ''2nd '')"
    unfolding t using i by simp
  have "validate_name_expr_spec ''2nd := sum(x)'' ''create'' =
     Inl (ValidationError (Invalid_identifier (''create'' @ '' name'') (trim ''2nd '')))"
    using create_spec_validation [of "''2nd := sum(x)''" "''create''"] s(3) i' by blast
  then have 4: "validate_name_expr_spec ''2nd := sum(x)'' ''create'' =
     Inl (ValidationError (Invalid_identifier ''create name'' ''2nd''))"
    using t by simp
  have 5: "\<exists>n e. split_once '':='' '' total := sum(x) '' = Some (n, e) \<and> ''total'' = trim n \<and>
          ''sum(x)'' = trim e"
    using create_spec_validation [of "'' total := sum(x) ''" "''create''"] 1 by blast
  show ?thesis using 1 2 3 4 5 by blast
qed

text \<open>
  The claim as stated leaves the last check out: the spec \<^verbatim>\<open>x := y <- 1\<close> passes the three
  structural checks, the truncation check and the common blocklist, and is rejected.
\<close>

theorem create_spec_assignment_counterexample:
  "contains_str '':='' ''x := y <- 1'' \<and>
   split_once '':='' ''x := y <- 1'' = Some (''x '', '' y <- 1'') \<and>
   trim ''x '' = ''x'' \<and> trim '' y <- 1'' = ''y <- 1'' \<and>
   fullmatch rx_identifier ''x'' \<and>
   \<not> contains_regex ''y <- 1'' rx_incomplete \<and>
   validate_common_blocklist ''y <- 1'' (''create expression '' @ [SQ] @ ''x'' @ [SQ]) = Inr () \<and>
   validate_name_expr_spec ''x := y <- 1'' ''create'' =
     Inl (ValidationError (Left_arrow (''create expression '' @ [SQ] @ ''x'' @ [SQ])))"
  by code_simp

subsection \<open>The timeout diagnoser's cause tags\<close>

text \<open>
  Claim C10. Every run of the timeout diagnoser emits at least one cause tag; the tag
  \<open>unknown\<close> is emitted exactly when none of the four other tags is; and
  \<open>compute_still_running\<close> and \<open>handoff_or_write_delay\<close> are never emitted together, since the
  first needs the executing flag to be \<open>1\<close> and the second needs it to differ from \<open>1\<close>.
\<close>

theorem diagnose_causes_nonempty_exclusive:
  "diagnose_result_wait_timeout d \<noteq> [] \<and>
   ((''unknown'' \<in> set (diagnose_result_wait_timeout d)) =
      (set (diagnose_result_wait_timeout d) \<inter>
         {''compute_still_running'', ''handoff_or_write_delay'',
          ''output_path_unavailable'', ''session_liveness_issue''} = {})) \<and>
   \<not> (''compute_still_running'' \<in> set (diagnose_result_wait_timeout d) \<and>
      ''handoff_or_write_delay'' \<in> set (diagnose_result_wait_timeout d)) \<and>
   ((''compute_still_running'' \<in> set (diagnose_result_wait_timeout d)) =
      (get_executing_flag_value (executing_file d) = ''1'')) \<and>
   ((''handoff_or_write_delay'' \<in> set (diagnose_result_wait_timeout d)) =
      (out_exists d \<and> out_size d = 0 \<and> get_executing_flag_value (executing_file d) \<noteq> ''1''))"
  unfolding diagnose_result_wait_timeout_def Let_def
  by auto

theorem diagnose_causes_nonempty_exclusive_witness:
  "diagnose_result_wait_timeout
     \<lparr>executing_file = Contents ''1'', out_exists = True, out_size = 0, pid_value = ''4242'',
      pid_probe = (\<lambda>pid. True), abend_entry = ''0''\<rparr> = [''compute_still_running''] \<and>
   ''handoff_or_write_delay'' \<notin> set (diagnose_result_wait_timeout
     \<lparr>executing_file = Contents ''1'', out_exists = True, out_size = 0, pid_value = ''4242'',
      pid_probe = (\<lambda>pid. True), abend_entry = ''0''\<rparr>)"
proof -
  have "diagnose_result_wait_timeout
     \<lparr>executing_file = Contents ''1'', out_exists = True, out_size = 0, pid_value = ''4242'',
      pid_probe = (\<lambda>pid. True), abend_entry = ''0''\<rparr> = [''compute_still_running'']"
    by code_simp
  then show ?thesis
    using diagnose_causes_nonempty_exclusive
      [of "\<lparr>executing_file = Contents ''1'', out_exists = True, out_size = 0,
            pid_value = ''4242'', pid_probe = (\<lambda>pid. True), abend_entry = ''0''\<rparr>"]
    by simp
qed

subsection \<open>Send validation\<close>

lemma seq_r_Inr: "seq_r m k = Inr c \<longleftrightarrow> (\<exists>u. m = Inr u) \<and> k = Inr c"
  by (cases m) (simp_all add: seq_r_def)

lemma seq_r_error: "(\<exists>e. k = Inl e) \<Longrightarrow> \<exists>e. seq_r m k = Inl e"
  by (cases m) (auto simp: seq_r_def)

lemma seq_r_simps: "seq_r (Inr u) k = k" "seq_r (Inl e) k = Inl e"
  by (simp_all add: seq_r_def)

lemma seq_r_Inl: "seq_r m k = Inl e \<longleftrightarrow> m = Inl e \<or> ((\<exists>u. m = Inr u) \<and> k = Inl e)"
  by (cases m) (simp_all add: seq_r_def)

lemma validate_export_combined:
  assumes "state_export_expr st \<noteq> []"
    and "result_expr st \<noteq> [] \<or> create_global_specs st \<noteq> [] \<or> modify_global_snippets st \<noteq> []"
  shows "validate_state_for_send t1 t2 st = Inl (ValidationError Export_combined)"
  using assms by (simp add: validate_state_for_send_def Let_def)

text \<open>
  Claim C3. A request state whose export expression is set together with a result
  expression, a create spec or a modify snippet is rejected by send validation:
  \<open>validate_state_for_send\<close> raises, \<open>send_current_state\<close> raises the same error before its
  first step, and \<open>build_r_code\<close> is not reached.
\<close>

theorem export_excludes_other_terminals:
  assumes "state_export_expr st \<noteq> []"
    and "result_expr st \<noteq> [] \<or> create_global_specs st \<noteq> [] \<or> modify_global_snippets st \<noteq> []"
  shows "validate_state_for_send (mkstemp_result w) (mkstemp_state w) st =
           Inl (ValidationError Export_combined) \<and>
         send_current_state w st = (Inl (ValidationError Export_combined), []) \<and>
         Ev_build_r_code \<notin> set (snd (send_current_state w st))"
  using validate_export_combined [OF assms]
  by (simp add: send_current_state_def)

theorem export_excludes_other_terminals_witness:
  "send_current_state sample_world
     (initial_State\<lparr>state_export_expr := ''mtcars'', create_global_specs := [''a := 1'']\<rparr>) =
   (Inl (ValidationError Export_combined), [])"
  using export_excludes_other_terminals
    [of "initial_State\<lparr>state_export_expr := ''mtcars'', create_global_specs := [''a := 1'']\<rparr>"
        sample_world]
  by (simp add: initial_State_def)

lemma validate_capture_fails:
  assumes "capture_output st" "result_expr st = []" "state_export_expr st = []"
  shows "\<exists>e. validate_state_for_send t1 t2 st = Inl e"
  using assms unfolding validate_state_for_send_def Let_def
  by (auto intro!: seq_r_error)

lemma validate_capture_error:
  assumes "capture_output st" "result_expr st = []" "state_export_expr st = []"
    and "validate_state_for_send t1 t2 (st\<lparr>capture_output := False\<rparr>) = Inr c"
  shows "validate_state_for_send t1 t2 st = Inl (ValidationError Capture_output_requires_result)"
  using assms unfolding validate_state_for_send_def Let_def
  by (auto simp: seq_r_Inr seq_r_simps split: if_splits)

lemma validate_earlier_error:
  assumes "result_expr st = []" "state_export_expr st = []"
    and "validate_state_for_send t1 t2 (st\<lparr>capture_output := False\<rparr>) = Inl e"
  shows "validate_state_for_send t1 t2 st = Inl e"
  using assms unfolding validate_state_for_send_def Let_def
  by (auto simp: seq_r_Inl seq_r_simps split: if_splits)

text \<open>
  Claim C9, as the code has it. A request state whose capture-output flag is set while
  neither a result expression nor an export expression is set fails send validation,
  before the session is resolved and before any transport step. The error is
  "capture-output requires result or export" when the state passes the checks that come
  before that one, that is, when the same state without the flag is valid; otherwise it
  is the error of the earlier check, the one that the state without the flag raises.
\<close>

theorem capture_output_requires_result_or_export:
  assumes "capture_output st" "result_expr st = []" "state_export_expr st = []"
  shows "(\<exists>e. validate_state_for_send (mkstemp_result w) (mkstemp_state w) st = Inl e \<and>
              send_current_state w st = (Inl e, [])) \<and>
         ((\<exists>c. validate_state_for_send (mkstemp_result w) (mkstemp_state w)
                 (st\<lparr>capture_output := False\<rparr>) = Inr c) \<longrightarrow>
          send_current_state w st = (Inl (ValidationError Capture_output_requires_result), [])) \<and>
         (\<forall>e. validate_state_for_send (mkstemp_result w) (mkstemp_state w)
                 (st\<lparr>capture_output := False\<rparr>) = Inl e \<longrightarrow>
          send_current_state w st = (Inl e, []))"
proof -
  obtain e where e: "validate_state_for_send (mkstemp_result w) (mkstemp_state w) st = Inl e"
    using validate_capture_fails [OF assms] by blast
  then have "send_current_state w st = (Inl e, [])"
    by (simp add: send_current_state_def)
  moreover have "send_current_state w st = (Inl (ValidationError Capture_output_requires_result), [])"
    if "validate_state_for_send (mkstemp_result w) (mkstemp_state w)
          (st\<lparr>capture_output := False\<rparr>) = Inr c" for c
    using validate_capture_error [OF assms that] by (simp add: send_current_state_def)
  moreover have "send_current_state w st = (Inl e', [])"
    if "validate_state_for_send (mkstemp_result w) (mkstemp_state w)
          (st\<lparr>capture_output := False\<rparr>) = Inl e'" for e'
    using validate_earlier_error [OF assms(2,3) that] by (simp add: send_current_state_def)
  ultimately show ?thesis using e by blast
qed

theorem capture_output_requires_result_or_export_witness:
  "send_current_state sample_world
     (initial_State\<lparr>append_code_snippets := [''x <- 1''], capture_output := True\<rparr>) =
   (Inl (ValidationError Capture_output_requires_result), []) \<and>
   send_current_state sample_world
     (initial_State\<lparr>append_code_snippets := [''x <- 1''], benchmark_mode := True,
                    capture_output := True\<rparr>) =
   (Inl (ValidationError Benchmark_requires_result), [])"
proof -
  let ?st = "initial_State\<lparr>append_code_snippets := [''x <- 1''], capture_output := True\<rparr>"
  let ?st2 = "initial_State\<lparr>append_code_snippets := [''x <- 1''], benchmark_mode := True,
                    capture_output := True\<rparr>"
  have a: "capture_output ?st" "result_expr ?st = []" "state_export_expr ?st = []"
    by (simp_all add: initial_State_def)
  have a2: "capture_output ?st2" "result_expr ?st2 = []" "state_export_expr ?st2 = []"
    by (simp_all add: initial_State_def)
  have "validate_state_for_send (mkstemp_result sample_world) (mkstemp_state sample_world)
          (?st\<lparr>capture_output := False\<rparr>) =
        Inr \<lparr>expect_result = False, ctx_out_path = [], is_temp_out_path = False,
             state_export_path = [], append_only = True\<rparr>"
    by code_simp
  then have b: "\<exists>c. validate_state_for_send (mkstemp_result sample_world) (mkstemp_state sample_world)
                 (?st\<lparr>capture_output := False\<rparr>) = Inr c"
    by blast
  have b2: "validate_state_for_send (mkstemp_result sample_world) (mkstemp_state sample_world)
          (?st2\<lparr>capture_output := False\<rparr>) = Inl (ValidationError Benchmark_requires_result)"
    by code_simp
  have 1: "send_current_state sample_world ?st =
             (Inl (ValidationError Capture_output_requires_result), [])"
    using capture_output_requires_result_or_export [OF a, of sample_world] b by blast
  have 2: "send_current_state sample_world ?st2 =
             (Inl (ValidationError Benchmark_requires_result), [])"
    using capture_output_requires_result_or_export [OF a2, of sample_world] b2 by blast
  show ?thesis using 1 2 by blast
qed

text \<open>
  The claim as stated names one error for every such state. A state with the flag and no
  capability at all fails with "At least one capability is required." instead.
\<close>

theorem capture_output_other_error_counterexample:
  "capture_output (initial_State\<lparr>capture_output := True\<rparr>) \<and>
   result_expr (initial_State\<lparr>capture_output := True\<rparr>) = [] \<and>
   state_export_expr (initial_State\<lparr>capture_output := True\<rparr>) = [] \<and>
   validate_state_for_send [] [] (initial_State\<lparr>capture_output := True\<rparr>) =
     Inl (ValidationError No_capability) \<and>
   validate_state_for_send [] [] (initial_State\<lparr>capture_output := True\<rparr>) \<noteq>
     Inl (ValidationError Capture_output_requires_result)"
  by code_simp

subsection \<open>Dispatch\<close>

lemma send_attempt_timeout:
  assumes "returncode (rpc_proc w) = 124 \<or> returncode (rpc_proc w) = 137"
  shows "(\<exists>e. fst (send_attempt w st c) = Inl e) \<and>
         Ev_enter_polling \<notin> set (snd (send_attempt w st c)) \<and>
         Ev_poll \<notin> set (snd (send_attempt w st c)) \<and>
         (\<forall>rc errs. Ev_run_rpc_send rc errs \<in> set (snd (send_attempt w st c)) \<longrightarrow>
            rc = 124 \<and> fst (send_attempt w st c) = Inl (SendError Rpc_send_failed))"
  using assms unfolding send_attempt_def run_rpc_send_def Let_def
  by (auto split: sum.splits option.splits)

text \<open>
  Claim C5. When the transport subprocess exits with status 124 or 137, \<open>run_rpc_send\<close>
  reports the timeout and returns 124, and \<open>send_current_state\<close> fails without entering the
  loop that polls the result file; when it got as far as the transport call, the failure is
  "Failed to send RPC request.".
\<close>

theorem transport_timeout_fails_before_polling:
  assumes "returncode (rpc_proc w) = 124 \<or> returncode (rpc_proc w) = 137"
  shows "fst (run_rpc_send (rpc_proc w) suppress t) = 124 \<and>
         last (snd (snd (run_rpc_send (rpc_proc w) suppress t))) =
           ''RPC send timed out after '' @ t @ ''s.'' \<and>
         (\<exists>e. fst (send_current_state w st) = Inl e) \<and>
         Ev_enter_polling \<notin> set (snd (send_current_state w st)) \<and>
         Ev_poll \<notin> set (snd (send_current_state w st)) \<and>
         (\<forall>rc errs. Ev_run_rpc_send rc errs \<in> set (snd (send_current_state w st)) \<longrightarrow>
            rc = 124 \<and> fst (send_current_state w st) = Inl (SendError Rpc_send_failed))"
proof -
  have a: "fst (run_rpc_send (rpc_proc w) suppress t) = 124 \<and>
         last (snd (snd (run_rpc_send (rpc_proc w) suppress t))) =
           ''RPC send timed out after '' @ t @ ''s.''"
    using assms by (auto simp: run_rpc_send_def Let_def)
  have b: "(\<exists>e. fst (send_current_state w st) = Inl e) \<and>
         Ev_enter_polling \<notin> set (snd (send_current_state w st)) \<and>
         Ev_poll \<notin> set (snd (send_current_state w st)) \<and>
         (\<forall>rc errs. Ev_run_rpc_send rc errs \<in> set (snd (send_current_state w st)) \<longrightarrow>
            rc = 124 \<and> fst (send_current_state w st) = Inl (SendError Rpc_send_failed))"
  proof (cases "validate_state_for_send (mkstemp_result w) (mkstemp_state w) st")
    case (Inl e)
    then show ?thesis by (simp add: send_current_state_def)
  next
    case (Inr c)
    then show ?thesis
      using send_attempt_timeout [OF assms, of st c]
      by (auto simp: send_current_state_def Let_def)
  qed
  show ?thesis using a b by blast
qed

theorem transport_timeout_fails_before_polling_witness:
  "send_current_state sample_world (initial_State\<lparr>result_expr := ''1 + 1''\<rparr>) =
     (Inl (SendError Rpc_send_failed),
      [Ev_resolve_session_dir, Ev_load_session_environment, Ev_build_r_code,
       Ev_check_r_code_parse, Ev_find_rpc_script,
       Ev_clear_result_file ''/tmp/codex_rstudio_capability_result_a.txt'', Ev_busy_precheck,
       Ev_run_rpc_send 124 [''RPC send timed out after 12s.''],
       Ev_unlink ''/tmp/codex_rstudio_capability_result_a.txt'']) \<and>
   Ev_enter_polling \<notin> set (snd (send_current_state sample_world
                                    (initial_State\<lparr>result_expr := ''1 + 1''\<rparr>)))"
proof -
  have r: "returncode (rpc_proc sample_world) = 124 \<or> returncode (rpc_proc sample_world) = 137"
    by (simp add: sample_world_def)
  have "send_current_state sample_world (initial_State\<lparr>result_expr := ''1 + 1''\<rparr>) =
     (Inl (SendError Rpc_send_failed),
      [Ev_resolve_session_dir, Ev_load_session_environment, Ev_build_r_code,
       Ev_check_r_code_parse, Ev_find_rpc_script,
       Ev_clear_result_file ''/tmp/codex_rstudio_capability_result_a.txt'', Ev_busy_precheck,
       Ev_run_rpc_send 124 [''RPC send timed out after 12s.''],
       Ev_unlink ''/tmp/codex_rstudio_capability_result_a.txt''])"
    by code_simp
  then show ?thesis
    using transport_timeout_fails_before_polling
      [OF r, of False "[]" "initial_State\<lparr>result_expr := ''1 + 1''\<rparr>"]
    by simp
qed

subsection \<open>The command loop\<close>

text \<open>
  Claim C6. A pass of the command loop on the command \<open>send\<close> leaves the capability
  state empty, whether the dispatch succeeds or fails with whatever error: the append
  snippets, the result expression, the export expression, the create specs and the modify
  snippets are all cleared, and the loop goes on.
\<close>

theorem send_always_clears_capabilities:
  assumes "trim line = ''send''"
  shows "fst (repl_iteration w st (Line line)) = clear_capabilities st \<and>
         fst (snd (repl_iteration w st (Line line))) = Continue \<and>
         append_code_snippets (fst (repl_iteration w st (Line line))) = [] \<and>
         result_expr (fst (repl_iteration w st (Line line))) = [] \<and>
         state_export_expr (fst (repl_iteration w st (Line line))) = [] \<and>
         create_global_specs (fst (repl_iteration w st (Line line))) = [] \<and>
         modify_global_snippets (fst (repl_iteration w st (Line line))) = []"
proof -
  have "apply_input_line st line = Inr (st, Some ''send'')"
    using assms by (simp add: apply_input_line_def)
  then have "fst (repl_iteration w st (Line line)) = clear_capabilities st \<and>
         fst (snd (repl_iteration w st (Line line))) = Continue"
    by (simp add: repl_iteration_def split: sum.split)
  then show ?thesis by (simp add: clear_capabilities_def)
qed

theorem send_always_clears_capabilities_witness:
  "trim '' send '' = ''send'' \<and>
   fst (repl_iteration sample_world
          (initial_State\<lparr>append_code_snippets := [''x <- 1''], result_expr := ''x''\<rparr>)
          (Line '' send '')) = initial_State"
proof -
  have t: "trim '' send '' = ''send''" by code_simp
  show ?thesis
    using send_always_clears_capabilities
      [OF t, of sample_world
         "initial_State\<lparr>append_code_snippets := [''x <- 1''], result_expr := ''x''\<rparr>"] t
    by (simp add: clear_capabilities_def initial_State_def)
qed

subsection \<open>Code synthesis\<close>

























text \<open>The lines that a benchmark request adds for its result expression.\<close>

lemma result_lines_in_benchmark_mode:
  assumes "result_expr st \<noteq> []" "benchmark_mode st"
  shows "result_lines st =
           [bench_t0_line, bench_timing_line (result_expr st)] @
           (if benchmark_unit st = ''ms'' then [bench_scale_line] else [])"
  using assms by (simp add: result_lines_def)

subsection \<open>The namespace check\<close>

text \<open>
  Claim C1, at the input where the code departs from it. The input lines
  \<^verbatim>\<open>modify:leaked <- 1\<close> and \<^verbatim>\<open>send\<close> make the request \<open>leaking_request\<close>; it passes send
  validation, and \<open>build_r_code\<close> produces the fragment below. The fragment assigns to
  \<^verbatim>\<open>.codex_exec_error\<close> what \<^verbatim>\<open>tryCatch\<close> returns, which in R is the error when the body
  raises one and the value of the body otherwise: here the value of
  \<^verbatim>\<open>.codex_run_core()\<close>, the \<open>1\<close> that the \<^verbatim>\<open>eval\<close> of the modify snippet yields. The line
  \<^verbatim>\<open>if (!is.null(.codex_exec_error)) {\<close> comes before the line that takes
  \<^verbatim>\<open>.codex_after\<close>, so this run stops there and the comparison of the two snapshots, which
  would find the undeclared global \<open>leaked\<close>, is not reached.
\<close>

theorem leaking_request_fragment:
  \<open>validate_state_for_send [] [] leaking_request =
     Inr \<lparr>expect_result = False, ctx_out_path = [], is_temp_out_path = False,
          state_export_path = [], append_only = False\<rparr> \<and>
   build_r_code leaking_request
     \<lparr>expect_result = False, ctx_out_path = [], is_temp_out_path = False,
      state_export_path = [], append_only = False\<rparr> =
     Inr (r_line ''.codex_before <- ls(envir = .GlobalEnv, all.names = TRUE)'' @
        r_line ''.codex_allowed_added <- c()'' @
        r_line ''.codex_result_out_path <- ""'' @
        r_line ''.codex_capture_output <- FALSE'' @
        r_line ''.codex_captured_stdout <- character(0)'' @
        r_line ''.codex_captured_stderr <- character(0)'' @
        r_line ''.codex_result_written <- FALSE'' @
        r_line ''.codex_exec_result <- NULL'' @
        r_line ''.codex_run_core <- function() {'' @
        r_line ''  .codex_exec_result <<- with(new.env(parent = .GlobalEnv), {'' @
        r_line ''  })'' @
        r_line ''  eval(parse(text = "leaked <- 1"), envir = .GlobalEnv)'' @
        r_line ''}'' @
        r_line ''.codex_msg <- function(x) {'' @
        r_line ''  if (inherits(x, "condition")) conditionMessage(x) else as.character(x)'' @
        r_line ''}'' @
        r_line ''.codex_exec_error <- tryCatch({'' @
        r_line ''  if (.codex_capture_output) {'' @
        r_line ''    .codex_captured_stdout <- capture.output({'' @
        r_line ''      withCallingHandlers({'' @
        r_line ''        .codex_run_core()'' @
        r_line ''      }, message = function(m) {'' @
        r_line ''        .codex_captured_stderr <<- c(.codex_captured_stderr, conditionMessage(m))'' @
        r_line ''        invokeRestart("muffleMessage")'' @
        r_line ''      }, warning = function(w) {'' @
        r_line ''        .codex_captured_stderr <<- c(.codex_captured_stderr, paste0("WARNING: ", conditionMessage(w)))'' @
        r_line ''        invokeRestart("muffleWarning")'' @
        r_line ''      })'' @
        r_line ''    }, type = "output")'' @
        r_line ''  } else {'' @
        r_line ''    .codex_run_core()'' @
        r_line ''  }'' @
        r_line ''}, error = function(e) e)'' @
        r_line ''if (!is.null(.codex_exec_error)) {'' @
        r_line ''  stop(.codex_msg(.codex_exec_error))'' @
        r_line ''}'' @
        r_line ''.codex_after <- ls(envir = .GlobalEnv, all.names = TRUE)'' @
        r_line ''.codex_new <- setdiff(.codex_after, .codex_before)'' @
        r_line ''.codex_removed <- setdiff(.codex_before, .codex_after)'' @
        r_line ''.codex_unexpected_new <- setdiff(.codex_new, .codex_allowed_added)'' @
        r_line ''.codex_unexpected_removed <- setdiff(.codex_removed, character(0))'' @
        r_line ''if (length(.codex_unexpected_new) > 0 || length(.codex_unexpected_removed) > 0) {'' @
        r_line ''  stop("Global environment leak detected")'' @
        r_line ''}'')\<close>
  by code_simp

theorem leaking_request_fragment_witness:
  \<open>build_r_code leaking_request
     \<lparr>expect_result = False, ctx_out_path = [], is_temp_out_path = False,
      state_export_path = [], append_only = False\<rparr> =
     Inr (setup_block leaking_request [] [] @
          run_core_block [] [] (join_lines [modify_line ''leaked <- 1'']) @
          msg_and_run_block @
          leak_check_block)\<close>
proof -
  have \<open>setup_block leaking_request [] [] @
        run_core_block [] [] (join_lines [modify_line ''leaked <- 1'']) @
        msg_and_run_block @
        leak_check_block =
        r_line ''.codex_before <- ls(envir = .GlobalEnv, all.names = TRUE)'' @
        r_line ''.codex_allowed_added <- c()'' @
        r_line ''.codex_result_out_path <- ""'' @
        r_line ''.codex_capture_output <- FALSE'' @
        r_line ''.codex_captured_stdout <- character(0)'' @
        r_line ''.codex_captured_stderr <- character(0)'' @
        r_line ''.codex_result_written <- FALSE'' @
        r_line ''.codex_exec_result <- NULL'' @
        r_line ''.codex_run_core <- function() {'' @
        r_line ''  .codex_exec_result <<- with(new.env(parent = .GlobalEnv), {'' @
        r_line ''  })'' @
        r_line ''  eval(parse(text = "leaked <- 1"), envir = .GlobalEnv)'' @
        r_line ''}'' @
        r_line ''.codex_msg <- function(x) {'' @
        r_line ''  if (inherits(x, "condition")) conditionMessage(x) else as.character(x)'' @
        r_line ''}'' @
        r_line ''.codex_exec_error <- tryCatch({'' @
        r_line ''  if (.codex_capture_output) {'' @
        r_line ''    .codex_captured_stdout <- capture.output({'' @
        r_line ''      withCallingHandlers({'' @
        r_line ''        .codex_run_core()'' @
        r_line ''      }, message = function(m) {'' @
        r_line ''        .codex_captured_stderr <<- c(.codex_captured_stderr, conditionMessage(m))'' @
        r_line ''        invokeRestart("muffleMessage")'' @
        r_line ''      }, warning = function(w) {'' @
        r_line ''        .codex_captured_stderr <<- c(.codex_captured_stderr, paste0("WARNING: ", conditionMessage(w)))'' @
        r_line ''        invokeRestart("muffleWarning")'' @
        r_line ''      })'' @
        r_line ''    }, type = "output")'' @
        r_line ''  } else {'' @
        r_line ''    .codex_run_core()'' @
        r_line ''  }'' @
        r_line ''}, error = function(e) e)'' @
        r_line ''if (!is.null(.codex_exec_error)) {'' @
        r_line ''  stop(.codex_msg(.codex_exec_error))'' @
        r_line ''}'' @
        r_line ''.codex_after <- ls(envir = .GlobalEnv, all.names = TRUE)'' @
        r_line ''.codex_new <- setdiff(.codex_after, .codex_before)'' @
        r_line ''.codex_removed <- setdiff(.codex_before, .codex_after)'' @
        r_line ''.codex_unexpected_new <- setdiff(.codex_new, .codex_allowed_added)'' @
        r_line ''.codex_unexpected_removed <- setdiff(.codex_removed, character(0))'' @
        r_line ''if (length(.codex_unexpected_new) > 0 || length(.codex_unexpected_removed) > 0) {'' @
        r_line ''  stop("Global environment leak detected")'' @
        r_line ''}''\<close>
    by code_simp
  then show ?thesis
    using leaking_request_fragment by simp
qed

end
